theory Spec2Isabelle
  imports Main "HOL-Library.AList"
begin

section \<open>The action-execution controller of st2api\<close>

text \<open>
  A shallow embedding of \<^verbatim>\<open>st2api/controllers/actionexecutions.py\<close>: the class
  \<^verbatim>\<open>ActionExecutionsController\<close> with its four endpoints \<^verbatim>\<open>get_one\<close>,
  \<^verbatim>\<open>get_all\<close>, \<^verbatim>\<open>post\<close> and \<^verbatim>\<open>put\<close>.

  The controller is glue over collaborators that live in other packages
  (\<^verbatim>\<open>st2common\<close>, \<^verbatim>\<open>jsonschema\<close>, \<^verbatim>\<open>json\<close>, \<^verbatim>\<open>pecan\<close>). Each of them is a
  parameter of the model: a field of the record \<open>services\<close> (pure lookups, validation,
  serialisation) or of the record \<open>persistence\<close> (the document store, over an arbitrary
  state type). The theorems about the controller therefore hold for every implementation
  of the collaborators. An in-memory store and a small example environment
  are defined further down; they instantiate the parameters wherever a statement is
  evaluated on concrete data.

  What is modelled is the body of each method. The \<^verbatim>\<open>jsexpose\<close> decorator, which
  turns the HTTP request into the arguments and the return value into the response,
  belongs to the framework side and is not part of it.
\<close>

subsection \<open>Values, dictionaries, exceptions\<close>

text \<open>JSON-like values (floats are left out: no endpoint computes with them).\<close>

datatype jvalue =
    JNull
  | JBool bool
  | JInt int
  | JStr string
  | JList "jvalue list"
  | JObj "(string \<times> jvalue) list"

text \<open>
  A Python \<^verbatim>\<open>dict\<close> with string keys is an association list; \<open>k in d\<close> is
  \<open>dict_has\<close>, \<open>d.get(k)\<close> is \<open>map_of d k\<close> and \<open>d[k] = v\<close> is \<open>dict_set\<close>.
\<close>

type_synonym 'v dict = "(string \<times> 'v) list"

definition dict_has :: "'v dict \<Rightarrow> string \<Rightarrow> bool" where
  "dict_has d k = (map_of d k \<noteq> None)"

definition dict_set :: "'v dict \<Rightarrow> string \<Rightarrow> 'v \<Rightarrow> 'v dict" where
  "dict_set d k v = AList.update k v d"

text \<open>Python exceptions, each with the text that \<^verbatim>\<open>str(e)\<close> gives.\<close>

datatype exn =
    AttributeError string
  | KeyError string
  | TypeError string
  | ValueError string
  | ValidationError string
  | OtherError string

fun str_exn :: "exn \<Rightarrow> string" where
  "str_exn (AttributeError m) = m"
| "str_exn (KeyError m) = m"
| "str_exn (TypeError m) = m"
| "str_exn (ValueError m) = m"
| "str_exn (ValidationError m) = m"
| "str_exn (OtherError m) = m"

text \<open>
  An endpoint ends in one of three ways: it returns, it calls \<^verbatim>\<open>abort(code, msg)\<close>,
  or an exception leaves it uncaught.
\<close>

datatype failure = Abort nat string | Raised exn

definition NOT_FOUND :: nat where "NOT_FOUND = 404"
definition FORBIDDEN :: nat where "FORBIDDEN = 403"
definition BAD_REQUEST :: nat where "BAD_REQUEST = 400"

subsection \<open>Documents\<close>

text \<open>
  Modelled from the spec: the status constants \<^verbatim>\<open>ACTIONEXEC_STATUS_INIT\<close> and
  \<^verbatim>\<open>ACTIONEXEC_STATUS_SCHEDULED\<close> are imported from
  \<^verbatim>\<open>st2common.models.api.action\<close>; the spec gives the status as the enumeration
  INIT, SCHEDULED, RUNNING, SUCCEEDED, FAILED and further values.
\<close>

datatype status = INIT | SCHEDULED | RUNNING | SUCCEEDED | FAILED | OtherStatus string

definition ACTIONEXEC_STATUS_INIT :: status where
  "ACTIONEXEC_STATUS_INIT = INIT"

definition ACTIONEXEC_STATUS_SCHEDULED :: status where
  "ACTIONEXEC_STATUS_SCHEDULED = SCHEDULED"

type_synonym timestamp = int

text \<open>
  The request body, an \<^verbatim>\<open>ActionExecutionAPI\<close> object. Every attribute may be
  missing (\<^verbatim>\<open>hasattr\<close> is false), which is \<open>None\<close> here; reading a missing attribute
  raises \<^verbatim>\<open>AttributeError\<close>.
\<close>

record actionexecution_api =
  api_id :: "string option"
  api_action :: "jvalue option"
  api_parameters :: "jvalue dict option"
  api_runner_parameters :: "jvalue dict option"
  api_status :: "status option"
  api_result :: "jvalue option"
  api_start_timestamp :: "timestamp option"
  api_context :: "jvalue option"

text \<open>The stored document, \<^verbatim>\<open>ActionExecutionDB\<close>; \<open>db_id\<close> is \<open>None\<close> until the first save.\<close>

record actionexec_db =
  db_id :: "string option"
  db_action :: jvalue
  db_parameters :: "jvalue dict"
  db_status :: "status option"
  db_result :: jvalue
  db_start_timestamp :: timestamp
  db_context :: jvalue

text \<open>
  Of an action document the controller reads \<^verbatim>\<open>enabled\<close> and \<^verbatim>\<open>runner_type\<close>
  only; whatever else it holds is the record's extension. Of a runner type it reads
  \<^verbatim>\<open>runner_parameters\<close>, a dictionary from parameter name to metadata dictionary.
\<close>

record action_db =
  enabled :: bool
  runner_type :: "jvalue dict"

record runnertype_db =
  runner_parameters :: "jvalue dict dict"

subsection \<open>Collaborators\<close>

text \<open>
  \<^item> \<open>json_loads\<close>: \<^verbatim>\<open>json.loads\<close>, which raises \<^verbatim>\<open>ValueError\<close> on malformed text;
  \<^item> \<open>get_action_by_dict\<close>, \<open>get_runnertype_by_name\<close>: \<^verbatim>\<open>st2common.util.action_db\<close>;
  \<^item> \<open>get_parameter_schema\<close>: \<^verbatim>\<open>st2common.util.schema\<close>;
  \<^item> \<open>jsonschema_validate\<close>: \<^verbatim>\<open>jsonschema.validate\<close>, \<open>None\<close> when it returns and
    the exception when it raises;
  \<^item> \<open>to_model\<close>, \<open>from_model\<close>: the class methods of \<^verbatim>\<open>ActionExecutionAPI\<close>.
\<close>

record 'm services =
  json_loads :: "string \<Rightarrow> exn + jvalue"
  get_action_by_dict :: "jvalue \<Rightarrow> 'm action_db_scheme option \<times> jvalue"
  get_runnertype_by_name :: "jvalue \<Rightarrow> exn + runnertype_db"
  get_parameter_schema :: "'m action_db_scheme \<Rightarrow> jvalue"
  jsonschema_validate :: "jvalue dict \<Rightarrow> jvalue \<Rightarrow> exn option"
  to_model :: "actionexecution_api \<Rightarrow> actionexec_db"
  from_model :: "actionexec_db \<Rightarrow> actionexecution_api"

text \<open>
  The persistence class \<^verbatim>\<open>ActionExecution\<close> and the helper
  \<^verbatim>\<open>update_actionexecution_status\<close>, over a store of type \<open>'s\<close>. A read returns the
  documents or the exception raised; a write also returns the new store. Keyword
  arguments of a query are a dictionary of filters, the \<^verbatim>\<open>order_by\<close> list and the
  \<^verbatim>\<open>limit\<close> (\<open>None\<close> is Python's \<^verbatim>\<open>None\<close>).
\<close>

record 's persistence =
  ActionExecution_get_by_id :: "'s \<Rightarrow> string \<Rightarrow> exn + actionexec_db"
  ActionExecution_query ::
    "'s \<Rightarrow> string dict \<Rightarrow> string list \<Rightarrow> int option \<Rightarrow> exn + actionexec_db list"
  ActionExecution_get_all ::
    "'s \<Rightarrow> string dict \<Rightarrow> string list \<Rightarrow> int option \<Rightarrow> exn + actionexec_db list"
  ActionExecution_add_or_update :: "'s \<Rightarrow> actionexec_db \<Rightarrow> exn + (actionexec_db \<times> 's)"
  update_actionexecution_status ::
    "'s \<Rightarrow> status \<Rightarrow> string option \<Rightarrow> exn + (actionexec_db \<times> 's)"

subsection \<open>The world an endpoint runs in\<close>

text \<open>
  The store and the log. A log entry is the level and the format string of the call
  (the interpolated arguments are object representations and are not modelled).
\<close>

datatype log_level = DEBUG | INFO | WARNING | ERROR | AUDIT | EXCEPTION

record 's world =
  store :: 's
  log :: "(log_level \<times> string) list"

definition LOG :: "log_level \<Rightarrow> string \<Rightarrow> 's world \<Rightarrow> 's world" where
  "LOG lvl msg w = w\<lparr>log := log w @ [(lvl, msg)]\<rparr>"

type_synonym ('s, 'a) endpoint = "'s world \<Rightarrow> (failure + 'a) \<times> 's world"

subsection \<open>Lookup by id\<close>

text \<open>
  \<^verbatim>\<open>__get_by_id\<close>: every exception of the store lookup is caught, logged and turned
  into \<^verbatim>\<open>abort(404, msg)\<close>.
\<close>

definition lookup_msg :: "string \<Rightarrow> exn \<Rightarrow> string" where
  "lookup_msg i e =
     ''Database lookup for id='' @ [CHR 0x22] @ i @ [CHR 0x22] @
     '' resulted in exception. '' @ str_exn e"

definition get_by_id :: "'s persistence \<Rightarrow> string \<Rightarrow> ('s, actionexec_db) endpoint" where
  "get_by_id P i w =
     (case ActionExecution_get_by_id P (store w) i of
        Inr r \<Rightarrow> (Inr r, w)
      | Inl e \<Rightarrow> (Inl (Abort NOT_FOUND (lookup_msg i e)), LOG EXCEPTION (lookup_msg i e) w))"

definition get_one ::
  "'m services \<Rightarrow> 's persistence \<Rightarrow> string \<Rightarrow> ('s, actionexecution_api) endpoint" where
  "get_one svc P i w0 =
     (let w1 = LOG INFO ''GET /actionexecutions/ with id=%s'' w0
      in case get_by_id P i w1 of
           (Inl f, w2) \<Rightarrow> (Inl f, w2)
         | (Inr actionexec_db, w2) \<Rightarrow>
             (let actionexec_api = from_model svc actionexec_db;
                  w3 = LOG DEBUG ''GET /actionexecutions/ with id=%s, client_result=%s'' w2
              in (Inr actionexec_api, w3)))"

subsection \<open>Listing\<close>

text \<open>
  Python's \<^verbatim>\<open>int(s)\<close> on a string: surrounding whitespace is dropped, one sign
  is allowed, and what remains must be one or more decimal digits; anything else
  raises \<^verbatim>\<open>ValueError\<close>.
\<close>

definition is_space :: "char \<Rightarrow> bool" where
  "is_space c = (c \<in> set [CHR 0x20, CHR 0x09, CHR 0x0A, CHR 0x0B, CHR 0x0C, CHR 0x0D])"

definition strip :: "string \<Rightarrow> string" where
  "strip s = rev (dropWhile is_space (rev (dropWhile is_space s)))"

definition digit_val :: "char \<Rightarrow> nat option" where
  "digit_val c = (if c \<in> set ''0123456789'' then Some (of_char c - 48) else None)"

fun digits_value :: "string \<Rightarrow> nat \<Rightarrow> nat option" where
  "digits_value [] acc = Some acc"
| "digits_value (c # cs) acc =
     (case digit_val c of None \<Rightarrow> None | Some d \<Rightarrow> digits_value cs (10 * acc + d))"

definition invalid_literal :: "string \<Rightarrow> exn" where
  "invalid_literal s = ValueError (''invalid literal for int() with base 10: '' @ s)"

definition py_int :: "string \<Rightarrow> exn + int" where
  "py_int s =
     (let t = strip s;
          (sign, ds) = (case t of
                          [] \<Rightarrow> (1, t)
                        | c # r \<Rightarrow> if c = CHR ''-'' then (- 1, r)
                                   else if c = CHR ''+'' then (1, r) else (1, t))
      in if ds = [] then Inl (invalid_literal s)
         else case digits_value ds 0 of
                None \<Rightarrow> Inl (invalid_literal s)
              | Some n \<Rightarrow> Inr (sign * int n))"

text \<open>
  A call \<^verbatim>\<open>f(k=v, **kw)\<close> raises \<^verbatim>\<open>TypeError\<close> when \<^verbatim>\<open>kw\<close> holds a key that is
  also passed by name.
\<close>

definition kwargs_clash :: "string list \<Rightarrow> 'v dict \<Rightarrow> bool" where
  "kwargs_clash names kw = list_ex (dict_has kw) names"

definition multiple_values :: exn where
  "multiple_values = TypeError ''got multiple values for keyword argument''"

text \<open>
  \<^verbatim>\<open>_get_action_executions\<close>: by action id, else by action name, else all documents;
  always with \<^verbatim>\<open>order_by=['-start_timestamp']\<close>.
\<close>

definition get_action_executions ::
  "'s persistence \<Rightarrow> string option \<Rightarrow> string option \<Rightarrow> int option \<Rightarrow> string dict \<Rightarrow>
   's world \<Rightarrow> (exn + actionexec_db list) \<times> 's world" where
  "get_action_executions P action_id action_name limit kw w =
     (case action_id of
        Some aid \<Rightarrow>
          (let w1 = LOG DEBUG ''Using action_id=%s to get action executions'' w
           in if kwargs_clash [''action__id'', ''order_by'', ''limit''] kw
              then (Inl multiple_values, w1)
              else (ActionExecution_query P (store w1) ((''action__id'', aid) # kw)
                      [''-start_timestamp''] limit, w1))
      | None \<Rightarrow>
          (case action_name of
             Some an \<Rightarrow>
               (let w1 = LOG DEBUG ''Using action_name=%s to get action executions'' w
                in if kwargs_clash [''action__name'', ''order_by'', ''limit''] kw
                   then (Inl multiple_values, w1)
                   else (ActionExecution_query P (store w1) ((''action__name'', an) # kw)
                           [''-start_timestamp''] limit, w1))
           | None \<Rightarrow>
               (let w1 = LOG DEBUG ''Retrieving all action executions'' w
                in if kwargs_clash [''order_by'', ''limit''] kw
                   then (Inl multiple_values, w1)
                   else (ActionExecution_get_all P (store w1) kw
                           [''-start_timestamp''] limit, w1))))"

text \<open>
  \<^verbatim>\<open>get_all\<close>: the \<^verbatim>\<open>limit\<close> argument is a string with default \<^verbatim>\<open>'50'\<close>; the
  documents that come back are sorted by \<^verbatim>\<open>start_timestamp\<close> (Python's \<^verbatim>\<open>sorted\<close>
  is stable, as \<open>sort_key\<close> is) and serialised one by one.
\<close>

definition default_limit :: string where
  "default_limit = ''50''"

definition get_all ::
  "'m services \<Rightarrow> 's persistence \<Rightarrow> string option \<Rightarrow> string option \<Rightarrow> string option \<Rightarrow>
   string dict \<Rightarrow> ('s, actionexecution_api list) endpoint" where
  "get_all svc P action_id action_name limit kw w0 =
     (let lim = (case limit of None \<Rightarrow> default_limit | Some l \<Rightarrow> l);
          w1 = LOG INFO ''GET all /actionexecutions/ with action_name=%s, action_id=%s, and limit=%s'' w0
      in case py_int lim of
           Inl e \<Rightarrow> (Inl (Raised e), w1)
         | Inr n \<Rightarrow>
             (case get_action_executions P action_id action_name (Some n) kw w1 of
                (Inl e, w2) \<Rightarrow> (Inl (Raised e), w2)
              | (Inr actionexec_dbs, w2) \<Rightarrow>
                  (let actionexec_apis =
                         map (from_model svc) (sort_key db_start_timestamp actionexec_dbs);
                       w3 = LOG DEBUG ''GET all /actionexecutions/ client_result=%s'' w2
                   in (Inr actionexec_apis, w3))))"

subsection \<open>Creation\<close>

text \<open>The \<^verbatim>\<open>st2-context\<close> header: \<^verbatim>\<open>.replace("'", "\"")\<close>, then \<^verbatim>\<open>json.loads\<close>.\<close>

definition replace_quotes :: "string \<Rightarrow> string" where
  "replace_quotes h = map (\<lambda>c. if c = CHR 0x27 then CHR 0x22 else c) h"

definition retrieve_context ::
  "'m services \<Rightarrow> (string \<Rightarrow> string option) \<Rightarrow> actionexecution_api \<Rightarrow>
   exn + actionexecution_api" where
  "retrieve_context svc headers a =
     (case headers ''st2-context'' of
        None \<Rightarrow> Inr a
      | Some h \<Rightarrow>
          if h = [] then Inr a
          else (case json_loads svc (replace_quotes h) of
                  Inl e \<Rightarrow> Inl e
                | Inr context \<Rightarrow> Inr (a\<lparr>api_context := Some context\<rparr>)))"

text \<open>The request without a \<^verbatim>\<open>parameters\<close> attribute: a warning, and \<^verbatim>\<open>setattr\<close>.\<close>

definition fill_in_parameters ::
  "actionexecution_api \<Rightarrow> 's world \<Rightarrow> actionexecution_api \<times> 's world" where
  "fill_in_parameters a w =
     (if api_parameters a = None
      then (a\<lparr>api_runner_parameters := Some []\<rparr>,
            LOG WARNING ''POST /actionexecutions/ request did not provide parameters field.'' w)
      else (a, w))"

text \<open>
  The loop over \<^verbatim>\<open>six.iteritems(runnertype.runner_parameters)\<close>. Each round reads
  \<^verbatim>\<open>actionexecution.parameters\<close>, which raises when the attribute is missing.
\<close>

fun assign_default_parameters ::
  "jvalue dict dict \<Rightarrow> actionexecution_api \<Rightarrow> exn + actionexecution_api" where
  "assign_default_parameters [] a = Inr a"
| "assign_default_parameters ((key, metadata) # items) a =
     (case api_parameters a of
        None \<Rightarrow> Inl (AttributeError ''parameters'')
      | Some parameters \<Rightarrow>
          if \<not> dict_has parameters key \<and> dict_has metadata ''default''
          then (case map_of metadata ''default'' of
                  None \<Rightarrow> assign_default_parameters items a
                | Some v \<Rightarrow>
                    if v \<noteq> JNull
                    then assign_default_parameters items
                           (a\<lparr>api_parameters := Some (dict_set parameters key v)\<rparr>)
                    else assign_default_parameters items a)
          else assign_default_parameters items a)"

text \<open>
  Validation: only \<^verbatim>\<open>jsonschema.ValidationError\<close> is caught and becomes
  \<^verbatim>\<open>abort(400, str(e))\<close>.
\<close>

definition validate_parameters ::
  "'m services \<Rightarrow> 'm action_db_scheme \<Rightarrow> actionexecution_api \<Rightarrow> ('s, unit) endpoint" where
  "validate_parameters svc action_db a w =
     (let schema = get_parameter_schema svc action_db
      in case api_parameters a of
           None \<Rightarrow> (Inl (Raised (AttributeError ''parameters'')), w)
         | Some parameters \<Rightarrow>
             (let w1 = LOG DEBUG ''POST /actionexecutions/ Validation for parameters=%s & schema=%s'' w
              in case jsonschema_validate svc parameters schema of
                   None \<Rightarrow>
                     (Inr (), LOG DEBUG ''POST /actionexecutions/ Parameter validation passed.'' w1)
                 | Some e \<Rightarrow>
                     (case e of
                        ValidationError m \<Rightarrow>
                          (Inl (Abort BAD_REQUEST (str_exn e)),
                           LOG ERROR ''POST /actionexecutions/ Parameter validation failed. %s'' w1)
                      | _ \<Rightarrow> (Inl (Raised e), w1))))"

text \<open>
  The two writes: the document with status INIT through \<^verbatim>\<open>add_or_update\<close>, then
  \<^verbatim>\<open>update_actionexecution_status\<close> with SCHEDULED and the id of the saved document.
\<close>

definition create_actionexecution ::
  "'m services \<Rightarrow> 's persistence \<Rightarrow> actionexecution_api \<Rightarrow> ('s, actionexecution_api) endpoint" where
  "create_actionexecution svc P a w =
     (let a1 = a\<lparr>api_status := Some ACTIONEXEC_STATUS_INIT\<rparr>;
          actionexec_db = to_model svc a1
      in case ActionExecution_add_or_update P (store w) actionexec_db of
           Inl e \<Rightarrow> (Inl (Raised e), w)
         | Inr (actionexec_db1, s1) \<Rightarrow>
             (let w1 = LOG AUDIT ''ActionExecution created. ActionExecution=%s. '' (w\<lparr>store := s1\<rparr>);
                  actionexec_id = db_id actionexec_db1;
                  actionexec_status = ACTIONEXEC_STATUS_SCHEDULED
              in case update_actionexecution_status P (store w1) actionexec_status actionexec_id of
                   Inl e \<Rightarrow> (Inl (Raised e), w1)
                 | Inr (actionexec_db2, s2) \<Rightarrow>
                     (let actionexec_api = from_model svc actionexec_db2;
                          w2 = LOG DEBUG ''POST /actionexecutions/ client_result=%s'' (w1\<lparr>store := s2\<rparr>)
                      in (Inr actionexec_api, w2))))"

definition post ::
  "'m services \<Rightarrow> 's persistence \<Rightarrow> timestamp \<Rightarrow> (string \<Rightarrow> string option) \<Rightarrow>
   actionexecution_api \<Rightarrow> ('s, actionexecution_api) endpoint" where
  "post svc P now headers actionexecution w0 =
     (let w1 = LOG INFO ''POST /actionexecutions/ with actionexec data=%s'' w0;
          a1 = actionexecution\<lparr>api_start_timestamp := Some now\<rparr>
      in case retrieve_context svc headers a1 of
           Inl e \<Rightarrow> (Inl (Raised e), w1)
         | Inr a2 \<Rightarrow>
      (case fill_in_parameters a2 w1 of (a3, w2) \<Rightarrow>
      (case api_action a3 of
         None \<Rightarrow> (Inl (Raised (AttributeError ''action'')), w2)
       | Some action \<Rightarrow>
      (case get_action_by_dict svc action of (action_db_opt, action_dict) \<Rightarrow>
      (let w3 = LOG DEBUG ''POST /actionexecutions/ Action=%s'' w2
       in case action_db_opt of
            None \<Rightarrow>
              (Inl (Abort NOT_FOUND ''Unable to find action.''),
               LOG ERROR (''POST /actionexecutions/ Action for '' @ [CHR 0x22] @ ''%s'' @ [CHR 0x22] @
                  '' cannot be found.'') w3)
          | Some action_db \<Rightarrow>
      (let a4 = a3\<lparr>api_action := Some action_dict\<rparr>
       in if \<not> enabled action_db
          then (Inl (Abort FORBIDDEN ''Action is disabled.''),
                LOG ERROR ''POST /actionexecutions/ Unable to create Action Execution for a disabled Action. Action is: %s'' w3)
          else
      (case map_of (runner_type action_db) ''name'' of
         None \<Rightarrow> (Inl (Raised (KeyError ''name'')), w3)
       | Some name \<Rightarrow>
      (case get_runnertype_by_name svc name of
         Inl e \<Rightarrow> (Inl (Raised e), w3)
       | Inr runnertype \<Rightarrow>
      (let w4 = LOG DEBUG ''POST /actionexecutions/ Runner=%s'' w3
       in case assign_default_parameters (runner_parameters runnertype) a4 of
            Inl e \<Rightarrow> (Inl (Raised e), w4)
          | Inr a5 \<Rightarrow>
      (case validate_parameters svc action_db a5 w4 of
         (Inl f, w5) \<Rightarrow> (Inl f, w5)
       | (Inr u, w5) \<Rightarrow> create_actionexecution svc P a5 w5))))))))))"

subsection \<open>Update\<close>


section \<open>An in-memory store\<close>

text \<open>
  Modelled from the spec: the persistence class \<^verbatim>\<open>ActionExecution\<close>
  (\<^verbatim>\<open>st2common.persistence.action\<close>) and \<^verbatim>\<open>update_actionexecution_status\<close>
  (\<^verbatim>\<open>st2common.util.action_db\<close>) are not part of the controller's file. The spec
  names their contracts: \<^verbatim>\<open>store.get(id)\<close>, \<^verbatim>\<open>store.query(filter, order, limit)\<close>,
  \<^verbatim>\<open>store.upsert(record)\<close>, \<^verbatim>\<open>transitionStatus(id, newStatus) -> updatedRecord\<close>;
  an id is assigned at creation; \<^verbatim>\<open>limit\<close> caps the result count; the filters
  \<^verbatim>\<open>action__id\<close> and \<^verbatim>\<open>action__name\<close> select on the stored action's id and
  name. The store below does this over a list of documents. What the spec leaves
  open (a filter key or an ordering other than these, a negative limit) is an error.
\<close>

record mem_store =
  records :: "actionexec_db list"
  next_id :: nat

fun string_of_nat :: "nat \<Rightarrow> string" where
  "string_of_nat n =
     (if n < 10 then [''0123456789'' ! n]
      else string_of_nat (n div 10) @ [''0123456789'' ! (n mod 10)])"

declare string_of_nat.simps [simp del]

definition mem_get_by_id :: "mem_store \<Rightarrow> string \<Rightarrow> exn + actionexec_db" where
  "mem_get_by_id s i =
     (case find (\<lambda>r. db_id r = Some i) (records s) of
        None \<Rightarrow> Inl (OtherError ''DoesNotExist'')
      | Some r \<Rightarrow> Inr r)"

definition mem_add_or_update ::
  "mem_store \<Rightarrow> actionexec_db \<Rightarrow> exn + (actionexec_db \<times> mem_store)" where
  "mem_add_or_update s r =
     (case db_id r of
        None \<Rightarrow>
          (let r1 = r\<lparr>db_id := Some (string_of_nat (next_id s))\<rparr>
           in Inr (r1, s\<lparr>records := r1 # records s, next_id := Suc (next_id s)\<rparr>))
      | Some i \<Rightarrow>
          if list_ex (\<lambda>x. db_id x = Some i) (records s)
          then Inr (r, s\<lparr>records := map (\<lambda>x. if db_id x = Some i then r else x) (records s)\<rparr>)
          else Inr (r, s\<lparr>records := r # records s\<rparr>))"

definition mem_update_actionexecution_status ::
  "mem_store \<Rightarrow> status \<Rightarrow> string option \<Rightarrow> exn + (actionexec_db \<times> mem_store)" where
  "mem_update_actionexecution_status s new_status actionexec_id =
     (case actionexec_id of
        None \<Rightarrow> Inl (ValueError ''No id given'')
      | Some i \<Rightarrow>
          (case mem_get_by_id s i of
             Inl e \<Rightarrow> Inl e
           | Inr r \<Rightarrow> mem_add_or_update s (r\<lparr>db_status := Some new_status\<rparr>)))"

definition action_field :: "actionexec_db \<Rightarrow> string \<Rightarrow> jvalue option" where
  "action_field r k = (case db_action r of JObj d \<Rightarrow> map_of d k | _ \<Rightarrow> None)"

definition mem_matches :: "string \<times> string \<Rightarrow> actionexec_db \<Rightarrow> bool" where
  "mem_matches f r =
     (if fst f = ''action__id'' then action_field r ''id'' = Some (JStr (snd f))
      else if fst f = ''action__name'' then action_field r ''name'' = Some (JStr (snd f))
      else False)"

definition mem_query ::
  "mem_store \<Rightarrow> string dict \<Rightarrow> string list \<Rightarrow> int option \<Rightarrow> exn + actionexec_db list" where
  "mem_query s filters order_by limit =
     (if \<not> list_all (\<lambda>f. fst f = ''action__id'' \<or> fst f = ''action__name'') filters
      then Inl (OtherError ''Cannot resolve field'')
      else if order_by \<noteq> [''-start_timestamp''] \<and> order_by \<noteq> []
      then Inl (OtherError ''Cannot resolve ordering'')
      else
        (let selected = filter (\<lambda>r. list_all (\<lambda>f. mem_matches f r) filters) (records s);
             ordered = (if order_by = [] then selected
                        else sort_key (\<lambda>r. - db_start_timestamp r) selected)
         in case limit of
              None \<Rightarrow> Inr ordered
            | Some n \<Rightarrow> if n < 0 then Inl (OtherError ''Negative limit'')
                        else Inr (take (nat n) ordered)))"

definition mem_persistence :: "mem_store persistence" where
  "mem_persistence =
     \<lparr> ActionExecution_get_by_id = mem_get_by_id,
       ActionExecution_query = mem_query,
       ActionExecution_get_all = mem_query,
       ActionExecution_add_or_update = mem_add_or_update,
       update_actionexecution_status = mem_update_actionexecution_status \<rparr>"

section \<open>An example environment\<close>

text \<open>
  Concrete collaborators on which the statements below are evaluated: two actions
  (\<^verbatim>\<open>core.local\<close>, enabled, and \<^verbatim>\<open>core.off\<close>, disabled), one runner type that
  declares the defaults \<^verbatim>\<open>a = 1\<close> and \<^verbatim>\<open>b = 2\<close> and a parameter \<^verbatim>\<open>c\<close> whose
  default is null, a validator that rejects the parameter \<^verbatim>\<open>bad\<close>, a JSON reader
  that knows one text, and a serialisation that copies field by field.
\<close>

definition example_action :: "string \<Rightarrow> jvalue" where
  "example_action n = JObj [(''id'', JStr (''id-'' @ n)), (''name'', JStr n)]"

definition example_runner :: runnertype_db where
  "example_runner =
     \<lparr> runner_parameters =
         [(''a'', [(''default'', JInt 1)]),
          (''b'', [(''default'', JInt 2)]),
          (''c'', [(''default'', JNull)])] \<rparr>"

definition example_to_model :: "actionexecution_api \<Rightarrow> actionexec_db" where
  "example_to_model a =
     \<lparr> db_id = None,
       db_action = (case api_action a of None \<Rightarrow> JNull | Some x \<Rightarrow> x),
       db_parameters = (case api_parameters a of None \<Rightarrow> [] | Some p \<Rightarrow> p),
       db_status = api_status a,
       db_result = (case api_result a of None \<Rightarrow> JNull | Some x \<Rightarrow> x),
       db_start_timestamp = (case api_start_timestamp a of None \<Rightarrow> 0 | Some t \<Rightarrow> t),
       db_context = (case api_context a of None \<Rightarrow> JObj [] | Some x \<Rightarrow> x) \<rparr>"

definition example_from_model :: "actionexec_db \<Rightarrow> actionexecution_api" where
  "example_from_model d =
     \<lparr> api_id = db_id d,
       api_action = Some (db_action d),
       api_parameters = Some (db_parameters d),
       api_runner_parameters = None,
       api_status = db_status d,
       api_result = Some (db_result d),
       api_start_timestamp = Some (db_start_timestamp d),
       api_context = Some (db_context d) \<rparr>"

definition example_services :: "unit services" where
  "example_services =
     \<lparr> json_loads =
         (\<lambda>s. if s = [CHR 0x22, CHR ''u'', CHR 0x22] then Inr (JStr ''u'')
              else Inl (ValueError ''No JSON object could be decoded'')),
       get_action_by_dict =
         (\<lambda>a. if a = JStr ''core.local''
              then (Some \<lparr>enabled = True, runner_type = [(''name'', JStr ''run-local'')]\<rparr>,
                    example_action ''core.local'')
              else if a = JStr ''core.off''
              then (Some \<lparr>enabled = False, runner_type = [(''name'', JStr ''run-local'')]\<rparr>,
                    example_action ''core.off'')
              else (None, JObj [])),
       get_runnertype_by_name =
         (\<lambda>n. if n = JStr ''run-local'' then Inr example_runner
              else Inl (OtherError ''RunnerType not found'')),
       get_parameter_schema = (\<lambda>a. JObj []),
       jsonschema_validate =
         (\<lambda>p schema. if dict_has p ''bad'' then Some (ValidationError ''bad is not allowed'')
                     else None),
       to_model = example_to_model,
       from_model = example_from_model \<rparr>"

definition example_request :: "string \<Rightarrow> jvalue dict option \<Rightarrow> actionexecution_api" where
  "example_request n p =
     \<lparr> api_id = None, api_action = Some (JStr n), api_parameters = p,
       api_runner_parameters = None, api_status = None, api_result = None,
       api_start_timestamp = None, api_context = None \<rparr>"

definition example_doc :: "string \<Rightarrow> timestamp \<Rightarrow> actionexec_db" where
  "example_doc i t =
     \<lparr> db_id = Some i, db_action = example_action ''core.local'', db_parameters = [],
       db_status = Some RUNNING, db_result = JNull, db_start_timestamp = t,
       db_context = JObj [] \<rparr>"

definition example_world :: "mem_store world" where
  "example_world =
     \<lparr> store = \<lparr> records = [example_doc ''0'' 30, example_doc ''1'' 10, example_doc ''2'' 20],
                 next_id = 3 \<rparr>,
       log = [] \<rparr>"

definition no_headers :: "string \<Rightarrow> string option" where
  "no_headers k = None"

section \<open>Properties\<close>

lemma store_LOG: "store (LOG l m w) = store w"
  by (simp add: LOG_def)

lemma log_LOG: "log (LOG l m w) = log w @ [(l, m)]"
  by (simp add: LOG_def)

subsection \<open>Reading one execution\<close>

text \<open>
  Claim C6. Whenever the store lookup of \<^verbatim>\<open>get_one(id)\<close> raises, whatever the
  exception is (a malformed id, a missing document, a storage error), the endpoint
  ends with \<^verbatim>\<open>abort(404, msg)\<close>; when the lookup returns a document, the endpoint
  returns its serialisation. The store is not changed either way.
\<close>

theorem get_one_not_found_or_serialized:
  "(\<forall>e. ActionExecution_get_by_id P (store w) i = Inl e \<longrightarrow>
      fst (get_one svc P i w) = Inl (Abort NOT_FOUND (lookup_msg i e)) \<and>
      store (snd (get_one svc P i w)) = store w) \<and>
   (\<forall>r. ActionExecution_get_by_id P (store w) i = Inr r \<longrightarrow>
      fst (get_one svc P i w) = Inr (from_model svc r) \<and>
      store (snd (get_one svc P i w)) = store w)"
  by (simp add: get_one_def get_by_id_def store_LOG)

theorem get_one_witness:
  "fst (get_one example_services mem_persistence ''7'' example_world) =
     Inl (Abort 404 (lookup_msg ''7'' (OtherError ''DoesNotExist''))) \<and>
   fst (get_one example_services mem_persistence ''1'' example_world) =
     Inr (example_from_model (example_doc ''1'' 10))"
proof -
  have a: "ActionExecution_get_by_id mem_persistence (store example_world) ''7'' =
             Inl (OtherError ''DoesNotExist'')"
    by (simp add: mem_persistence_def mem_get_by_id_def example_world_def example_doc_def)
  have b: "ActionExecution_get_by_id mem_persistence (store example_world) ''1'' =
             Inr (example_doc ''1'' 10)"
    by (simp add: mem_persistence_def mem_get_by_id_def example_world_def example_doc_def)
  have c: "from_model example_services = example_from_model"
    by (simp add: example_services_def)
  show ?thesis
    using get_one_not_found_or_serialized
            [of mem_persistence example_world "''7''" example_services]
          get_one_not_found_or_serialized
            [of mem_persistence example_world "''1''" example_services]
          a b c
    by (simp add: NOT_FOUND_def)
qed

subsection \<open>The context header\<close>

lemma post_with_context:
  assumes "headers ''st2-context'' = Some h" and "h \<noteq> []"
    and "json_loads svc (map (\<lambda>c. if c = CHR 0x27 then CHR 0x22 else c) h) = Inr c"
  shows "post svc P now headers a w0 = post svc P now (\<lambda>k. None) (a\<lparr>api_context := Some c\<rparr>) w0"
proof -
  have l: "retrieve_context svc headers (a\<lparr>api_start_timestamp := Some now\<rparr>) =
           Inr (a\<lparr>api_start_timestamp := Some now, api_context := Some c\<rparr>)"
    using assms by (simp add: retrieve_context_def replace_quotes_def)
  have r: "retrieve_context svc (\<lambda>k. None) (a\<lparr>api_context := Some c, api_start_timestamp := Some now\<rparr>) =
           Inr (a\<lparr>api_start_timestamp := Some now, api_context := Some c\<rparr>)"
    by (simp add: retrieve_context_def)
  show ?thesis
    unfolding post_def Let_def l r by simp
qed

text \<open>
  Claim C10. In \<^verbatim>\<open>post\<close>, when the \<^verbatim>\<open>st2-context\<close> header is present and not
  empty, its value with every single quote replaced by a double quote is given to
  \<^verbatim>\<open>json.loads\<close> and the parsed value becomes the request's \<^verbatim>\<open>context\<close>: the
  endpoint then runs exactly as it does without the header on a request that carries
  this context. When the header is absent or empty, the request is left as it is.
\<close>

theorem retrieve_context_header:
  "(\<forall>h c. headers ''st2-context'' = Some h \<and> h \<noteq> [] \<and>
           json_loads svc (map (\<lambda>c. if c = CHR 0x27 then CHR 0x22 else c) h) = Inr c \<longrightarrow>
      retrieve_context svc headers a = Inr (a\<lparr>api_context := Some c\<rparr>) \<and>
      post svc P now headers a w0 =
        post svc P now (\<lambda>k. None) (a\<lparr>api_context := Some c\<rparr>) w0) \<and>
   (headers ''st2-context'' = None \<or> headers ''st2-context'' = Some [] \<longrightarrow>
      retrieve_context svc headers a = Inr a)"
  by (auto simp: retrieve_context_def replace_quotes_def intro: post_with_context)

theorem retrieve_context_witness:
  "retrieve_context example_services
     (\<lambda>k. if k = ''st2-context'' then Some [CHR 0x27, CHR ''u'', CHR 0x27] else None)
     (example_request ''core.local'' None) =
     Inr ((example_request ''core.local'' None)\<lparr>api_context := Some (JStr ''u'')\<rparr>) \<and>
   retrieve_context example_services no_headers (example_request ''core.local'' None) =
     Inr (example_request ''core.local'' None)"
proof -
  let ?H = "\<lambda>k. if k = ''st2-context'' then Some [CHR 0x27, CHR ''u'', CHR 0x27] else None"
  have h: "?H ''st2-context'' = Some [CHR 0x27, CHR ''u'', CHR 0x27] \<and>
           [CHR 0x27, CHR ''u'', CHR 0x27] \<noteq> [] \<and>
           json_loads example_services
             (map (\<lambda>c. if c = CHR 0x27 then CHR 0x22 else c) [CHR 0x27, CHR ''u'', CHR 0x27]) =
           Inr (JStr ''u'')"
    by (simp add: example_services_def)
  have n: "no_headers ''st2-context'' = None \<or> no_headers ''st2-context'' = Some []"
    by (simp add: no_headers_def)
  from retrieve_context_header
         [where headers = ?H and svc = example_services and P = mem_persistence and now = 99
            and ?w0.0 = example_world and a = "example_request ''core.local'' None"] h
  have 1: "retrieve_context example_services ?H (example_request ''core.local'' None) =
             Inr ((example_request ''core.local'' None)\<lparr>api_context := Some (JStr ''u'')\<rparr>)"
    by blast
  from retrieve_context_header
         [where headers = no_headers and svc = example_services and P = mem_persistence
            and now = 99 and ?w0.0 = example_world and a = "example_request ''core.local'' None"] n
  have 2: "retrieve_context example_services no_headers (example_request ''core.local'' None) =
             Inr (example_request ''core.local'' None)"
    by blast
  from 1 2 show ?thesis by blast
qed

subsection \<open>Updating an execution\<close>







subsection \<open>Listing executions\<close>

lemma get_action_executions_call:
  assumes "get_action_executions P action_id action_name limit kw w = (Inr xs, w')"
  shows "(case action_id of
            Some aid \<Rightarrow> ActionExecution_query P (store w) ((''action__id'', aid) # kw)
                          [''-start_timestamp''] limit
          | None \<Rightarrow>
              (case action_name of
                 Some an \<Rightarrow> ActionExecution_query P (store w) ((''action__name'', an) # kw)
                              [''-start_timestamp''] limit
               | None \<Rightarrow> ActionExecution_get_all P (store w) kw
                            [''-start_timestamp''] limit)) = Inr xs \<and>
         store w' = store w"
  using assms
  by (auto simp: get_action_executions_def Let_def store_LOG split: option.splits if_splits)

lemma get_all_returns:
  assumes "get_all svc P action_id action_name limit kw w = (Inr rs, w')"
  shows "\<exists>n xs. py_int (case limit of None \<Rightarrow> default_limit | Some l \<Rightarrow> l) = Inr n \<and>
           (case action_id of
              Some aid \<Rightarrow> ActionExecution_query P (store w) ((''action__id'', aid) # kw)
                            [''-start_timestamp''] (Some n)
            | None \<Rightarrow>
                (case action_name of
                   Some an \<Rightarrow> ActionExecution_query P (store w) ((''action__name'', an) # kw)
                                [''-start_timestamp''] (Some n)
                 | None \<Rightarrow> ActionExecution_get_all P (store w) kw
                              [''-start_timestamp''] (Some n))) = Inr xs \<and>
           rs = map (from_model svc) (sort_key db_start_timestamp xs) \<and> store w' = store w"
proof -
  let ?w1 = "LOG INFO ''GET all /actionexecutions/ with action_name=%s, action_id=%s, and limit=%s'' w"
  from assms obtain n xs w2 where
    n: "py_int (case limit of None \<Rightarrow> default_limit | Some l \<Rightarrow> l) = Inr n"
    and g: "get_action_executions P action_id action_name (Some n) kw ?w1 = (Inr xs, w2)"
    and rs: "rs = map (from_model svc) (sort_key db_start_timestamp xs)"
    and w': "w' = LOG DEBUG ''GET all /actionexecutions/ client_result=%s'' w2"
    by (auto simp: get_all_def Let_def split: sum.splits prod.splits)
  from get_action_executions_call [OF g, unfolded store_LOG] n rs w' show ?thesis
    by (auto simp: store_LOG)
qed

lemma py_int_default_limit: "py_int default_limit = Inr 50"
  by (simp add: default_limit_def py_int_def strip_def is_space_def digit_val_def)

text \<open>
  \<open>string_of_nat n\<close> is the decimal numeral of \<open>n\<close>, and \<^verbatim>\<open>int\<close> reads it back.
\<close>

lemma string_of_nat_not_empty: "string_of_nat n \<noteq> []"
  by (subst string_of_nat.simps) simp

lemma digit_val_digit: "d < 10 \<Longrightarrow> digit_val (''0123456789'' ! d) = Some d"
proof -
  assume "d < 10"
  then have "d \<in> {0,1,2,3,4,5,6,7,8,9}" by auto
  then show ?thesis by (auto simp: digit_val_def)
qed

lemma digits_value_append:
  "digits_value (xs @ ys) acc =
     (case digits_value xs acc of None \<Rightarrow> None | Some v \<Rightarrow> digits_value ys v)"
  by (induction xs arbitrary: acc) (auto split: option.splits)

lemma digits_value_string_of_nat: "digits_value (string_of_nat n) 0 = Some n"
proof (induction n rule: string_of_nat.induct)
  case (1 n)
  show ?case
  proof (cases "n < 10")
    case True
    then show ?thesis
      by (subst string_of_nat.simps) (simp add: digit_val_digit)
  next
    case False
    with 1 have ih: "digits_value (string_of_nat (n div 10)) 0 = Some (n div 10)" by simp
    have "n mod 10 < 10" by simp
    from digit_val_digit [OF this] False ih show ?thesis
      by (subst string_of_nat.simps) (simp add: digits_value_append)
  qed
qed

lemma string_of_nat_digits: "set (string_of_nat n) \<subseteq> set ''0123456789''"
proof (induction n rule: string_of_nat.induct)
  case (1 n)
  have d: "\<And>d. d < 10 \<Longrightarrow> ''0123456789'' ! d \<in> set ''0123456789''"
    by (rule nth_mem) simp
  show ?case
  proof (cases "n < 10")
    case True
    with d [of n] show ?thesis
      by (subst string_of_nat.simps) simp
  next
    case False
    with 1 have "set (string_of_nat (n div 10)) \<subseteq> set ''0123456789''" by simp
    with False d [of "n mod 10"] show ?thesis
      by (subst string_of_nat.simps) simp
  qed
qed

lemma strip_no_space:
  assumes "\<forall>c \<in> set xs. \<not> is_space c"
  shows "strip xs = xs"
proof -
  have d: "\<And>ys. \<forall>c \<in> set ys. \<not> is_space c \<Longrightarrow> dropWhile is_space ys = ys"
    by (metis dropWhile_eq_self_iff list.set_sel(1))
  from assms have 1: "dropWhile is_space xs = xs" by (rule d)
  from assms have "\<forall>c \<in> set (rev xs). \<not> is_space c" by simp
  then have 2: "dropWhile is_space (rev xs) = rev xs" by (rule d)
  show ?thesis by (simp add: strip_def 1 2)
qed

lemma py_int_string_of_nat: "py_int (string_of_nat n) = Inr (int n)"
proof -
  have ns: "\<forall>c \<in> set (string_of_nat n). \<not> is_space c"
    using string_of_nat_digits [of n] by (auto simp: is_space_def)
  obtain c cs where cs: "string_of_nat n = c # cs"
    using string_of_nat_not_empty [of n] by (cases "string_of_nat n") auto
  with string_of_nat_digits [of n] have "c \<noteq> CHR ''-''" "c \<noteq> CHR ''+''" by auto
  with cs have
    "(case string_of_nat n of [] \<Rightarrow> (1::int, string_of_nat n)
      | c # r \<Rightarrow> if c = CHR ''-'' then (- 1, r)
                 else if c = CHR ''+'' then (1, r) else (1, string_of_nat n)) =
     (1, string_of_nat n)"
    by simp
  then show ?thesis
    unfolding py_int_def strip_no_space [OF ns] Let_def
    using string_of_nat_not_empty [of n]
    by (simp add: digits_value_string_of_nat)
qed

lemma mem_query_limit:
  assumes "mem_query s filters order_by (Some n) = Inr xs"
  shows "int (length xs) \<le> n"
  using assms
  by (auto simp: mem_query_def Let_def split: if_splits)

lemma example_get_all:
  "get_all example_services mem_persistence None None None [] example_world =
     (Inr (map example_from_model [example_doc ''1'' 10, example_doc ''2'' 20, example_doc ''0'' 30]),
      LOG DEBUG ''GET all /actionexecutions/ client_result=%s''
        (LOG DEBUG ''Retrieving all action executions''
          (LOG INFO ''GET all /actionexecutions/ with action_name=%s, action_id=%s, and limit=%s''
             example_world)))"
  by (simp add: get_all_def get_action_executions_def py_int_default_limit kwargs_clash_def
        dict_has_def store_LOG mem_query_def Let_def example_services_def example_world_def
        example_doc_def mem_persistence_def)

lemma example_get_all_2:
  "get_all example_services mem_persistence None None (Some ''2'') [] example_world =
     (Inr (map example_from_model [example_doc ''2'' 20, example_doc ''0'' 30]),
      LOG DEBUG ''GET all /actionexecutions/ client_result=%s''
        (LOG DEBUG ''Retrieving all action executions''
          (LOG INFO ''GET all /actionexecutions/ with action_name=%s, action_id=%s, and limit=%s''
             example_world)))"
  by (simp add: get_all_def get_action_executions_def kwargs_clash_def
        py_int_def strip_def is_space_def digit_val_def
        dict_has_def store_LOG mem_query_def Let_def example_services_def example_world_def
        example_doc_def mem_persistence_def)

text \<open>
  Claim C5. Whatever the store holds and whatever filters are given, a list returned
  by \<^verbatim>\<open>get_all\<close> is the serialisation of the documents the store returned, sorted
  ascending by \<^verbatim>\<open>start_timestamp\<close>, although the store was asked for
  \<^verbatim>\<open>order_by=['-start_timestamp']\<close>; without \<^verbatim>\<open>action_id\<close> and \<^verbatim>\<open>action_name\<close>
  the documents come from \<^verbatim>\<open>ActionExecution.get_all\<close>, the query over all documents.
\<close>

theorem get_all_sorted_ascending:
  assumes "get_all svc P action_id action_name limit kw w = (Inr rs, w')"
  shows "\<exists>n xs. py_int (case limit of None \<Rightarrow> default_limit | Some l \<Rightarrow> l) = Inr n \<and>
           (case action_id of
              Some aid \<Rightarrow> ActionExecution_query P (store w) ((''action__id'', aid) # kw)
                            [''-start_timestamp''] (Some n)
            | None \<Rightarrow>
                (case action_name of
                   Some an \<Rightarrow> ActionExecution_query P (store w) ((''action__name'', an) # kw)
                                [''-start_timestamp''] (Some n)
                 | None \<Rightarrow> ActionExecution_get_all P (store w) kw
                              [''-start_timestamp''] (Some n))) = Inr xs \<and>
           rs = map (from_model svc) (sort_key db_start_timestamp xs) \<and>
           sorted (map db_start_timestamp (sort_key db_start_timestamp xs)) \<and>
           set (sort_key db_start_timestamp xs) = set xs \<and>
           length rs = length xs"
proof -
  from get_all_returns [OF assms] obtain n xs where
    "py_int (case limit of None \<Rightarrow> default_limit | Some l \<Rightarrow> l) = Inr n"
    "(case action_id of
        Some aid \<Rightarrow> ActionExecution_query P (store w) ((''action__id'', aid) # kw)
                      [''-start_timestamp''] (Some n)
      | None \<Rightarrow>
          (case action_name of
             Some an \<Rightarrow> ActionExecution_query P (store w) ((''action__name'', an) # kw)
                          [''-start_timestamp''] (Some n)
           | None \<Rightarrow> ActionExecution_get_all P (store w) kw
                        [''-start_timestamp''] (Some n))) = Inr xs"
    "rs = map (from_model svc) (sort_key db_start_timestamp xs)"
    by blast
  then show ?thesis
    by (intro exI [of _ n] exI [of _ xs]) simp
qed

theorem get_all_sorted_witness:
  "ActionExecution_get_all mem_persistence (store example_world) []
     [''-start_timestamp''] (Some 50) =
     Inr [example_doc ''0'' 30, example_doc ''2'' 20, example_doc ''1'' 10] \<and>
   fst (get_all example_services mem_persistence None None None [] example_world) =
     Inr (map example_from_model
            [example_doc ''1'' 10, example_doc ''2'' 20, example_doc ''0'' 30])"
proof -
  have q: "ActionExecution_get_all mem_persistence (store example_world) []
             [''-start_timestamp''] (Some 50) =
           Inr [example_doc ''0'' 30, example_doc ''2'' 20, example_doc ''1'' 10]"
    by (simp add: mem_persistence_def mem_query_def example_world_def example_doc_def)
  from get_all_sorted_ascending [OF example_get_all] q py_int_default_limit
  show ?thesis
    by (simp add: example_get_all)
qed

text \<open>
  Claim C9. Over the in-memory store, \<^verbatim>\<open>get_all\<close> called with a \<^verbatim>\<open>limit\<close> string
  that reads as the natural number \<open>N\<close> (the decimal numeral of \<open>N\<close> is such a
  string, for every \<open>N\<close>) returns at most \<open>N\<close> entries; a call without
  \<^verbatim>\<open>limit\<close> is the call with the default \<^verbatim>\<open>'50'\<close>, which reads as 50, so it returns
  at most 50 entries. (The cap itself is the store's: the controller passes the
  number on and returns one entry for each document it gets back.)
\<close>

theorem get_all_limit:
  "(\<forall>l N rs w'. py_int l = Inr (int N) \<and>
        get_all svc mem_persistence action_id action_name (Some l) kw w = (Inr rs, w') \<longrightarrow>
        length rs \<le> N) \<and>
   py_int default_limit = Inr 50 \<and>
   get_all svc P action_id action_name None kw w0 =
     get_all svc P action_id action_name (Some default_limit) kw w0 \<and>
   (\<forall>rs w'. get_all svc mem_persistence action_id action_name None kw w = (Inr rs, w') \<longrightarrow>
        length rs \<le> 50) \<and>
   (\<forall>N rs w'. get_all svc mem_persistence action_id action_name (Some (string_of_nat N)) kw w =
        (Inr rs, w') \<longrightarrow> length rs \<le> N)"
proof -
  have cap: "length rs \<le> nat n"
    if "py_int (case limit of None \<Rightarrow> default_limit | Some l \<Rightarrow> l) = Inr n"
      and "get_all svc mem_persistence action_id action_name limit kw w = (Inr rs, w')"
    for limit n rs w'
  proof -
    from get_all_returns [OF that(2)] that(1) obtain xs where
      xs: "(case action_id of
              Some aid \<Rightarrow> ActionExecution_query mem_persistence (store w)
                            ((''action__id'', aid) # kw) [''-start_timestamp''] (Some n)
            | None \<Rightarrow>
                (case action_name of
                   Some an \<Rightarrow> ActionExecution_query mem_persistence (store w)
                                ((''action__name'', an) # kw) [''-start_timestamp''] (Some n)
                 | None \<Rightarrow> ActionExecution_get_all mem_persistence (store w) kw
                              [''-start_timestamp''] (Some n))) = Inr xs"
      and rs: "rs = map (from_model svc) (sort_key db_start_timestamp xs)"
      by auto
    from xs have "mem_query (store w)
                    (case action_id of Some aid \<Rightarrow> (''action__id'', aid) # kw
                     | None \<Rightarrow> (case action_name of Some an \<Rightarrow> (''action__name'', an) # kw
                                | None \<Rightarrow> kw))
                    [''-start_timestamp''] (Some n) = Inr xs"
      by (simp add: mem_persistence_def split: option.splits)
    from mem_query_limit [OF this] rs show ?thesis by simp
  qed
  have a: "\<forall>l N rs w'. py_int l = Inr (int N) \<and>
        get_all svc mem_persistence action_id action_name (Some l) kw w = (Inr rs, w') \<longrightarrow>
        length rs \<le> N"
    using cap [of "Some _"] by fastforce
  have d: "\<forall>rs w'. get_all svc mem_persistence action_id action_name None kw w = (Inr rs, w') \<longrightarrow>
        length rs \<le> 50"
    using cap [of None 50] py_int_default_limit by fastforce
  have c: "get_all svc P action_id action_name None kw w0 =
     get_all svc P action_id action_name (Some default_limit) kw w0"
    by (simp add: get_all_def)
  have e: "\<forall>N rs w'. get_all svc mem_persistence action_id action_name (Some (string_of_nat N)) kw w =
        (Inr rs, w') \<longrightarrow> length rs \<le> N"
    using a py_int_string_of_nat by blast
  from a py_int_default_limit c d e show ?thesis by blast
qed

theorem get_all_limit_witness:
  "py_int ''2'' = Inr (int 2) \<and>
   fst (get_all example_services mem_persistence None None (Some ''2'') [] example_world) =
     Inr (map example_from_model [example_doc ''2'' 20, example_doc ''0'' 30]) \<and>
   length (map example_from_model [example_doc ''2'' 20, example_doc ''0'' 30]) \<le> 2"
proof -
  have p: "py_int ''2'' = Inr (int 2)"
    by (simp add: py_int_def strip_def is_space_def digit_val_def)
  from get_all_limit [of example_services None None "[]" example_world]
       p example_get_all_2
  show ?thesis
    by simp
qed

subsection \<open>Creating an execution\<close>

lemma assign_default_parameters_missing:
  assumes "api_parameters a = None"
  shows "assign_default_parameters rp a =
           (if rp = [] then Inr a else Inl (AttributeError ''parameters''))"
  using assms by (cases rp) auto

lemma map_of_dict_set:
  "map_of (dict_set d k v) k' = (if k' = k then Some v else map_of d k')"
  by (simp add: dict_set_def update_conv')

lemma assign_default_parameters_merges:
  assumes "api_parameters a = Some p"
  shows "\<exists>m. assign_default_parameters rp a = Inr (a\<lparr>api_parameters := Some m\<rparr>) \<and>
           (\<forall>k v. map_of p k = Some v \<longrightarrow> map_of m k = Some v) \<and>
           (\<forall>k md v. map_of rp k = Some md \<and> map_of md ''default'' = Some v \<and> v \<noteq> JNull \<and>
                      map_of p k = None \<longrightarrow> map_of m k = Some v)"
  using assms
proof (induction rp arbitrary: a p)
  case Nil
  then show ?case by (intro exI [of _ p]) simp
next
  case (Cons item items)
  obtain key metadata where item: "item = (key, metadata)" by (cases item)
  show ?case
  proof (cases "\<not> dict_has p key \<and> (\<exists>v. map_of metadata ''default'' = Some v \<and> v \<noteq> JNull)")
    case True
    then obtain v where v: "map_of metadata ''default'' = Some v" "v \<noteq> JNull"
      and nk: "map_of p key = None"
      by (auto simp: dict_has_def)
    let ?a = "a\<lparr>api_parameters := Some (dict_set p key v)\<rparr>"
    have "api_parameters ?a = Some (dict_set p key v)" by simp
    from Cons.IH [OF this] obtain m where
      m: "assign_default_parameters items ?a = Inr (?a\<lparr>api_parameters := Some m\<rparr>)"
      and keep: "\<forall>k w. map_of (dict_set p key v) k = Some w \<longrightarrow> map_of m k = Some w"
      and inj: "\<forall>k md w. map_of items k = Some md \<and> map_of md ''default'' = Some w \<and> w \<noteq> JNull \<and>
                  map_of (dict_set p key v) k = None \<longrightarrow> map_of m k = Some w"
      by blast
    have step: "assign_default_parameters (item # items) a = Inr (a\<lparr>api_parameters := Some m\<rparr>)"
      using Cons.prems v nk m by (simp add: item dict_has_def)
    have k1: "\<forall>k w. map_of p k = Some w \<longrightarrow> map_of m k = Some w"
    proof (intro allI impI)
      fix k w assume kw: "map_of p k = Some w"
      with nk have "k \<noteq> key" by auto
      with kw have "map_of (dict_set p key v) k = Some w" by (simp add: map_of_dict_set)
      with keep show "map_of m k = Some w" by blast
    qed
    have k2: "\<forall>k md w. map_of (item # items) k = Some md \<and> map_of md ''default'' = Some w \<and>
                w \<noteq> JNull \<and> map_of p k = None \<longrightarrow> map_of m k = Some w"
    proof (intro allI impI)
      fix k md w
      assume h: "map_of (item # items) k = Some md \<and> map_of md ''default'' = Some w \<and>
                w \<noteq> JNull \<and> map_of p k = None"
      show "map_of m k = Some w"
      proof (cases "k = key")
        case True
        with h have "md = metadata" by (simp add: item)
        with h v have "w = v" by simp
        moreover have "map_of (dict_set p key v) key = Some v" by (simp add: map_of_dict_set)
        ultimately show ?thesis using keep True by blast
      next
        case False
        with h have "map_of items k = Some md" by (simp add: item)
        moreover from False h have "map_of (dict_set p key v) k = None"
          by (simp add: map_of_dict_set)
        ultimately show ?thesis using inj h by blast
      qed
    qed
    from step k1 k2 show ?thesis by blast
  next
    case False
    from Cons.IH [OF Cons.prems] obtain m where
      m: "assign_default_parameters items a = Inr (a\<lparr>api_parameters := Some m\<rparr>)"
      and keep: "\<forall>k w. map_of p k = Some w \<longrightarrow> map_of m k = Some w"
      and inj: "\<forall>k md w. map_of items k = Some md \<and> map_of md ''default'' = Some w \<and> w \<noteq> JNull \<and>
                  map_of p k = None \<longrightarrow> map_of m k = Some w"
      by blast
    have step: "assign_default_parameters (item # items) a = Inr (a\<lparr>api_parameters := Some m\<rparr>)"
      using Cons.prems False m by (auto simp: item dict_has_def split: option.splits)
    have k2: "\<forall>k md w. map_of (item # items) k = Some md \<and> map_of md ''default'' = Some w \<and>
                w \<noteq> JNull \<and> map_of p k = None \<longrightarrow> map_of m k = Some w"
      using inj False by (auto simp: item dict_has_def split: if_splits)
    from step keep k2 show ?thesis by blast
  qed
qed

lemma retrieve_context_keeps:
  assumes "retrieve_context svc headers a = Inr a2"
  shows "api_parameters a2 = api_parameters a \<and> api_action a2 = api_action a \<and>
         api_id a2 = api_id a \<and> api_start_timestamp a2 = api_start_timestamp a"
  using assms
  by (auto simp: retrieve_context_def split: option.splits if_splits sum.splits)

lemma validate_parameters_store:
  "store (snd (validate_parameters svc adb a w)) = store w"
  by (simp add: validate_parameters_def Let_def store_LOG split: option.splits exn.splits)

lemma validate_parameters_missing:
  assumes "api_parameters a = None"
  shows "validate_parameters svc adb a w = (Inl (Raised (AttributeError ''parameters'')), w)"
  using assms by (simp add: validate_parameters_def)

lemma create_actionexecution_no_abort:
  "fst (create_actionexecution svc P a w) \<noteq> Inl (Abort c m)"
  by (simp add: create_actionexecution_def Let_def split: sum.splits prod.splits)

lemma post_reaches_loop:
  assumes ctx: "retrieve_context svc headers (a\<lparr>api_start_timestamp := Some now\<rparr>) = Inr a2"
    and act: "api_action a = Some act"
    and res: "get_action_by_dict svc act = (Some adb, adict)"
    and en: "enabled adb"
    and nm: "map_of (runner_type adb) ''name'' = Some name"
    and rt: "get_runnertype_by_name svc name = Inr rtype"
  shows "\<exists>w4. store w4 = store w0 \<and>
           post svc P now headers a w0 =
             (case assign_default_parameters (runner_parameters rtype)
                     ((fst (fill_in_parameters a2 w0))\<lparr>api_action := Some adict\<rparr>) of
                Inl e \<Rightarrow> (Inl (Raised e), w4)
              | Inr a5 \<Rightarrow>
                  (case validate_parameters svc adb a5 w4 of
                     (Inl f, w5) \<Rightarrow> (Inl f, w5)
                   | (Inr u, w5) \<Rightarrow> create_actionexecution svc P a5 w5))"
proof -
  from retrieve_context_keeps [OF ctx] act have act2: "api_action a2 = Some act" by simp
  show ?thesis
  proof (cases "api_parameters a2")
    case None
    let ?w4 = "LOG DEBUG ''POST /actionexecutions/ Runner=%s''
                (LOG DEBUG ''POST /actionexecutions/ Action=%s''
                  (LOG WARNING ''POST /actionexecutions/ request did not provide parameters field.''
                    (LOG INFO ''POST /actionexecutions/ with actionexec data=%s'' w0)))"
    show ?thesis
      apply (rule exI [of _ ?w4])
      using None act2 ctx res en nm rt
      apply (simp add: post_def fill_in_parameters_def store_LOG Let_def)
      done
  next
    case (Some p)
    let ?w4 = "LOG DEBUG ''POST /actionexecutions/ Runner=%s''
                (LOG DEBUG ''POST /actionexecutions/ Action=%s''
                    (LOG INFO ''POST /actionexecutions/ with actionexec data=%s'' w0))"
    show ?thesis
      apply (rule exI [of _ ?w4])
      using Some act2 ctx res en nm rt
      apply (simp add: post_def fill_in_parameters_def store_LOG Let_def)
      done
  qed
qed

lemma post_abort_store:
  assumes "post svc P now headers a w0 = (Inl (Abort c m), w')"
  shows "store w' = store w0"
proof -
  have v: "\<And>adb a5 w f w5. validate_parameters svc adb a5 w = (f, w5) \<Longrightarrow> store w5 = store w"
    using validate_parameters_store by (metis snd_conv)
  have n: "\<And>a5 w w5. create_actionexecution svc P a5 w \<noteq> (Inl (Abort c m), w5)"
    using create_actionexecution_no_abort by (metis fst_conv)
  show ?thesis
    using assms
    by (auto simp: post_def fill_in_parameters_def Let_def store_LOG n
             split: sum.splits option.splits prod.splits if_splits dest!: v)
qed

lemma mem_create_and_schedule:
  assumes "db_id d0 = None"
  shows "\<exists>d1 s1 d2 s2.
           mem_add_or_update s d0 = Inr (d1, s1) \<and>
           d1 = d0\<lparr>db_id := Some (string_of_nat (next_id s))\<rparr> \<and>
           d1 \<in> set (records s1) \<and>
           mem_update_actionexecution_status s1 st (db_id d1) = Inr (d2, s2) \<and>
           d2 = d1\<lparr>db_status := Some st\<rparr> \<and>
           d2 \<in> set (records s2)"
  using assms
  by (simp add: mem_add_or_update_def mem_update_actionexecution_status_def mem_get_by_id_def
        Let_def)

lemma assign_default_parameters_present:
  assumes "assign_default_parameters rp x = Inr y" and "api_parameters y = Some m"
  shows "\<exists>p. api_parameters x = Some p"
proof (cases "api_parameters x")
  case None
  from assign_default_parameters_missing [OF None, of rp] assms None show ?thesis
    by (auto split: if_splits)
next
  case (Some p)
  then show ?thesis by blast
qed

lemma example_context:
  "retrieve_context example_services no_headers x = Inr x"
  by (simp add: retrieve_context_def no_headers_def)

lemma example_local:
  "get_action_by_dict example_services (JStr ''core.local'') =
     (Some \<lparr>enabled = True, runner_type = [(''name'', JStr ''run-local'')]\<rparr>,
      example_action ''core.local'')"
  by (simp add: example_services_def)

lemma example_off:
  "get_action_by_dict example_services (JStr ''core.off'') =
     (Some \<lparr>enabled = False, runner_type = [(''name'', JStr ''run-local'')]\<rparr>,
      example_action ''core.off'')"
  by (simp add: example_services_def)

lemma example_nope:
  "fst (get_action_by_dict example_services (JStr ''nope'')) = None"
  by (simp add: example_services_def)

lemma example_runner_found:
  "get_runnertype_by_name example_services (JStr ''run-local'') = Inr example_runner"
  by (simp add: example_services_def)

text \<open>
  Claim C1. When \<^verbatim>\<open>post\<close> reaches the defaulting loop with a request that has
  \<^verbatim>\<open>parameters\<close>, the loop yields merged parameters in which every value the caller
  supplied is unchanged and every runner parameter with a non-null \<^verbatim>\<open>default\<close>
  that the caller did not supply has its default; validation and then persistence run
  on the request with these merged parameters. With the defaults \<^verbatim>\<open>{a: 1, b: 2}\<close>
  and the supplied \<^verbatim>\<open>{a: 5}\<close> the merged parameters are \<^verbatim>\<open>{a: 5, b: 2}\<close>.
\<close>

theorem post_assigns_default_parameters:
  assumes ctx: "retrieve_context svc headers (a\<lparr>api_start_timestamp := Some now\<rparr>) = Inr a2"
    and act: "api_action a = Some act"
    and res: "get_action_by_dict svc act = (Some adb, adict)"
    and en: "enabled adb"
    and nm: "map_of (runner_type adb) ''name'' = Some name"
    and rt: "get_runnertype_by_name svc name = Inr rtype"
    and params: "api_parameters a = Some supplied"
  shows "\<exists>merged w4.
           assign_default_parameters (runner_parameters rtype) (a2\<lparr>api_action := Some adict\<rparr>) =
             Inr (a2\<lparr>api_action := Some adict, api_parameters := Some merged\<rparr>) \<and>
           (\<forall>k v. map_of supplied k = Some v \<longrightarrow> map_of merged k = Some v) \<and>
           (\<forall>k md v. map_of (runner_parameters rtype) k = Some md \<and>
                      map_of md ''default'' = Some v \<and> v \<noteq> JNull \<and> map_of supplied k = None \<longrightarrow>
                      map_of merged k = Some v) \<and>
           store w4 = store w0 \<and>
           post svc P now headers a w0 =
             (case validate_parameters svc adb
                     (a2\<lparr>api_action := Some adict, api_parameters := Some merged\<rparr>) w4 of
                (Inl f, w5) \<Rightarrow> (Inl f, w5)
              | (Inr u, w5) \<Rightarrow>
                  create_actionexecution svc P
                    (a2\<lparr>api_action := Some adict, api_parameters := Some merged\<rparr>) w5) \<and>
           assign_default_parameters
             [(''a'', [(''default'', JInt 1)]), (''b'', [(''default'', JInt 2)])]
             (r\<lparr>api_parameters := Some [(''a'', JInt 5)]\<rparr>) =
             Inr (r\<lparr>api_parameters := Some [(''a'', JInt 5), (''b'', JInt 2)]\<rparr>)"
proof -
  from retrieve_context_keeps [OF ctx] params have p2: "api_parameters a2 = Some supplied"
    by simp
  then have f: "fst (fill_in_parameters a2 w0) = a2" by (simp add: fill_in_parameters_def)
  from p2 have "api_parameters (a2\<lparr>api_action := Some adict\<rparr>) = Some supplied" by simp
  from assign_default_parameters_merges [OF this, of "runner_parameters rtype"]
  obtain merged where
    asg: "assign_default_parameters (runner_parameters rtype) (a2\<lparr>api_action := Some adict\<rparr>) =
            Inr (a2\<lparr>api_action := Some adict, api_parameters := Some merged\<rparr>)"
    and keep: "\<forall>k v. map_of supplied k = Some v \<longrightarrow> map_of merged k = Some v"
    and inj: "\<forall>k md v. map_of (runner_parameters rtype) k = Some md \<and>
                map_of md ''default'' = Some v \<and> v \<noteq> JNull \<and> map_of supplied k = None \<longrightarrow>
                map_of merged k = Some v"
    by auto
  from post_reaches_loop [OF ctx act res en nm rt, of w0 P] asg obtain w4 where
    w4: "store w4 = store w0"
    and p: "post svc P now headers a w0 =
             (case validate_parameters svc adb
                     (a2\<lparr>api_action := Some adict, api_parameters := Some merged\<rparr>) w4 of
                (Inl f, w5) \<Rightarrow> (Inl f, w5)
              | (Inr u, w5) \<Rightarrow>
                  create_actionexecution svc P
                    (a2\<lparr>api_action := Some adict, api_parameters := Some merged\<rparr>) w5)"
    by (auto simp: f)
  have ex: "assign_default_parameters
             [(''a'', [(''default'', JInt 1)]), (''b'', [(''default'', JInt 2)])]
             (r\<lparr>api_parameters := Some [(''a'', JInt 5)]\<rparr>) =
             Inr (r\<lparr>api_parameters := Some [(''a'', JInt 5), (''b'', JInt 2)]\<rparr>)"
    by (simp add: dict_has_def dict_set_def)
  from asg keep inj w4 p ex show ?thesis by blast
qed

theorem post_assigns_default_parameters_witness:
  "api_parameters (example_request ''core.local'' (Some [(''a'', JInt 5)])) = Some [(''a'', JInt 5)] \<and>
   (\<exists>merged.
      assign_default_parameters (runner_parameters example_runner)
        ((example_request ''core.local'' (Some [(''a'', JInt 5)]))
           \<lparr>api_start_timestamp := Some 99, api_action := Some (example_action ''core.local'')\<rparr>) =
        Inr ((example_request ''core.local'' (Some [(''a'', JInt 5)]))
           \<lparr>api_start_timestamp := Some 99, api_action := Some (example_action ''core.local''),
            api_parameters := Some merged\<rparr>) \<and>
      map_of merged ''a'' = Some (JInt 5) \<and> map_of merged ''b'' = Some (JInt 2))"
proof -
  let ?R = "example_request ''core.local'' (Some [(''a'', JInt 5)])"
  have params: "api_parameters ?R = Some [(''a'', JInt 5)]"
    and act: "api_action ?R = Some (JStr ''core.local'')"
    by (simp_all add: example_request_def)
  have en: "enabled \<lparr>enabled = True, runner_type = [(''name'', JStr ''run-local'')]\<rparr>"
    and nm: "map_of (runner_type \<lparr>enabled = True, runner_type = [(''name'', JStr ''run-local'')]\<rparr>)
               ''name'' = Some (JStr ''run-local'')"
    by simp_all
  have a: "map_of [(''a'', JInt 5)] ''a'' = Some (JInt 5)"
    and b: "map_of (runner_parameters example_runner) ''b'' = Some [(''default'', JInt 2)] \<and>
            map_of [(''default'', JInt 2)] ''default'' = Some (JInt 2) \<and> JInt 2 \<noteq> JNull \<and>
            map_of [(''a'', JInt 5)] ''b'' = None"
    by (simp_all add: example_runner_def)
  from post_assigns_default_parameters
         [OF example_context act example_local en nm example_runner_found params,
          of 99 example_world mem_persistence]
  obtain merged where
    "assign_default_parameters (runner_parameters example_runner)
        (?R\<lparr>api_start_timestamp := Some 99, api_action := Some (example_action ''core.local'')\<rparr>) =
        Inr (?R\<lparr>api_start_timestamp := Some 99, api_action := Some (example_action ''core.local''),
            api_parameters := Some merged\<rparr>)"
    "\<forall>k v. map_of [(''a'', JInt 5)] k = Some v \<longrightarrow> map_of merged k = Some v"
    "\<forall>k md v. map_of (runner_parameters example_runner) k = Some md \<and>
                      map_of md ''default'' = Some v \<and> v \<noteq> JNull \<and>
                      map_of [(''a'', JInt 5)] k = None \<longrightarrow>
                      map_of merged k = Some v"
    by blast
  with a b params show ?thesis by blast
qed

text \<open>
  Claim C2. Over the in-memory store, with a serialisation that carries status and id
  and gives a new document no id: a creation request that resolves to an enabled
  action and whose merged parameters pass validation is first saved with status INIT,
  then \<^verbatim>\<open>update_actionexecution_status\<close> sets SCHEDULED on the saved id, and the
  entry returned has status SCHEDULED and an id that is not empty.
\<close>

theorem post_creates_scheduled_execution:
  assumes ctx: "retrieve_context svc headers (a\<lparr>api_start_timestamp := Some now\<rparr>) = Inr a2"
    and act: "api_action a = Some act"
    and res: "get_action_by_dict svc act = (Some adb, adict)"
    and en: "enabled adb"
    and nm: "map_of (runner_type adb) ''name'' = Some name"
    and rt: "get_runnertype_by_name svc name = Inr rtype"
    and asg: "assign_default_parameters (runner_parameters rtype) (a2\<lparr>api_action := Some adict\<rparr>) =
                Inr a5"
    and mp: "api_parameters a5 = Some merged"
    and valid: "jsonschema_validate svc merged (get_parameter_schema svc adb) = None"
    and to_status: "\<forall>x. db_status (to_model svc x) = api_status x"
    and to_id: "\<forall>x. db_id (to_model svc x) = None"
    and from_keeps: "\<forall>d. api_status (from_model svc d) = db_status d \<and>
                         api_id (from_model svc d) = db_id d"
  shows "\<exists>d1 s1 d2 s2 w'.
           ActionExecution_add_or_update mem_persistence (store w0)
             (to_model svc (a5\<lparr>api_status := Some ACTIONEXEC_STATUS_INIT\<rparr>)) = Inr (d1, s1) \<and>
           db_status d1 = Some INIT \<and> d1 \<in> set (records s1) \<and>
           update_actionexecution_status mem_persistence s1 ACTIONEXEC_STATUS_SCHEDULED (db_id d1) =
             Inr (d2, s2) \<and>
           d2 \<in> set (records s2) \<and> db_id d2 = db_id d1 \<and>
           post svc mem_persistence now headers a w0 = (Inr (from_model svc d2), w') \<and>
           store w' = s2 \<and>
           api_status (from_model svc d2) = Some SCHEDULED \<and>
           (\<exists>i. api_id (from_model svc d2) = Some i \<and> i \<noteq> [])"
proof -
  let ?d0 = "to_model svc (a5\<lparr>api_status := Some ACTIONEXEC_STATUS_INIT\<rparr>)"
  from assign_default_parameters_present [OF asg mp] obtain p where
    "api_parameters (a2\<lparr>api_action := Some adict\<rparr>) = Some p" by blast
  then have f: "fst (fill_in_parameters a2 w0) = a2" by (simp add: fill_in_parameters_def)
  from post_reaches_loop [OF ctx act res en nm rt, of w0 mem_persistence] asg obtain w4 where
    w4: "store w4 = store w0"
    and p: "post svc mem_persistence now headers a w0 =
             (case validate_parameters svc adb a5 w4 of
                (Inl f, w5) \<Rightarrow> (Inl f, w5)
              | (Inr u, w5) \<Rightarrow> create_actionexecution svc mem_persistence a5 w5)"
    by (auto simp: f)
  let ?w5 = "LOG DEBUG ''POST /actionexecutions/ Parameter validation passed.''
              (LOG DEBUG ''POST /actionexecutions/ Validation for parameters=%s & schema=%s'' w4)"
  from mp valid have v: "validate_parameters svc adb a5 w4 = (Inr (), ?w5)"
    by (simp add: validate_parameters_def Let_def)
  have s5: "store ?w5 = store w0" using w4 by (simp add: store_LOG)
  from to_id have "db_id ?d0 = None" by blast
  from mem_create_and_schedule [OF this, of "store w0" ACTIONEXEC_STATUS_SCHEDULED]
  obtain d1 s1 d2 s2 where
    c1: "mem_add_or_update (store w0) ?d0 = Inr (d1, s1)"
    and d1: "d1 = ?d0\<lparr>db_id := Some (string_of_nat (next_id (store w0)))\<rparr>"
    and in1: "d1 \<in> set (records s1)"
    and c2: "mem_update_actionexecution_status s1 ACTIONEXEC_STATUS_SCHEDULED (db_id d1) = Inr (d2, s2)"
    and d2: "d2 = d1\<lparr>db_status := Some ACTIONEXEC_STATUS_SCHEDULED\<rparr>"
    and in2: "d2 \<in> set (records s2)"
    by blast
  from to_status d1 have st1: "db_status d1 = Some INIT"
    by (simp add: ACTIONEXEC_STATUS_INIT_def)
  let ?w' = "LOG DEBUG ''POST /actionexecutions/ client_result=%s''
               ((LOG AUDIT ''ActionExecution created. ActionExecution=%s. '' (?w5\<lparr>store := s1\<rparr>))
                  \<lparr>store := s2\<rparr>)"
  have cr: "create_actionexecution svc mem_persistence a5 ?w5 = (Inr (from_model svc d2), ?w')"
    using c1 c2 s5
    by (simp add: create_actionexecution_def mem_persistence_def Let_def store_LOG)
  from p v cr have post: "post svc mem_persistence now headers a w0 = (Inr (from_model svc d2), ?w')"
    by simp
  have sw: "store ?w' = s2" by (simp add: store_LOG)
  from from_keeps d2 have rs: "api_status (from_model svc d2) = Some SCHEDULED"
    by (simp add: ACTIONEXEC_STATUS_SCHEDULED_def)
  from from_keeps d1 d2 have ri: "api_id (from_model svc d2) = Some (string_of_nat (next_id (store w0)))"
    by simp
  have id2: "db_id d2 = db_id d1" using d2 by simp
  from c1 c2 have c1': "ActionExecution_add_or_update mem_persistence (store w0) ?d0 = Inr (d1, s1)"
    and c2': "update_actionexecution_status mem_persistence s1 ACTIONEXEC_STATUS_SCHEDULED (db_id d1) =
                Inr (d2, s2)"
    by (simp_all add: mem_persistence_def)
  from c1' st1 in1 c2' in2 id2 post sw rs ri string_of_nat_not_empty show ?thesis
    by blast
qed

theorem post_creates_scheduled_execution_witness:
  "api_action (example_request ''core.local'' (Some [(''a'', JInt 5)])) = Some (JStr ''core.local'') \<and>
   jsonschema_validate example_services [(''a'', JInt 5), (''b'', JInt 2)]
     (get_parameter_schema example_services
        \<lparr>enabled = True, runner_type = [(''name'', JStr ''run-local'')]\<rparr>) = None \<and>
   (\<forall>x. db_status (to_model example_services x) = api_status x) \<and>
   (\<forall>x. db_id (to_model example_services x) = None) \<and>
   (\<forall>d. api_status (from_model example_services d) = db_status d \<and>
        api_id (from_model example_services d) = db_id d) \<and>
   (\<exists>r w'. post example_services mem_persistence 99 no_headers
              (example_request ''core.local'' (Some [(''a'', JInt 5)])) example_world = (Inr r, w') \<and>
           api_status r = Some SCHEDULED \<and> (\<exists>i. api_id r = Some i \<and> i \<noteq> []) \<and>
           (\<exists>d \<in> set (records (store w')). db_status d = Some SCHEDULED))"
proof -
  let ?R = "example_request ''core.local'' (Some [(''a'', JInt 5)])"
  let ?M = "[(''a'', JInt 5), (''b'', JInt 2)]"
  let ?A5 = "?R\<lparr>api_start_timestamp := Some 99,
                 api_action := Some (example_action ''core.local''),
                 api_parameters := Some ?M\<rparr>"
  have act: "api_action ?R = Some (JStr ''core.local'')"
    by (simp add: example_request_def)
  have en: "enabled \<lparr>enabled = True, runner_type = [(''name'', JStr ''run-local'')]\<rparr>"
    and nm: "map_of (runner_type \<lparr>enabled = True, runner_type = [(''name'', JStr ''run-local'')]\<rparr>)
               ''name'' = Some (JStr ''run-local'')"
    by simp_all
  have asg: "assign_default_parameters (runner_parameters example_runner)
               (?R\<lparr>api_start_timestamp := Some 99, api_action := Some (example_action ''core.local'')\<rparr>) =
             Inr ?A5"
    by (simp add: example_request_def example_runner_def dict_has_def dict_set_def)
  have mp: "api_parameters ?A5 = Some ?M" by simp
  have valid: "jsonschema_validate example_services ?M
     (get_parameter_schema example_services
        \<lparr>enabled = True, runner_type = [(''name'', JStr ''run-local'')]\<rparr>) = None"
    by (simp add: example_services_def dict_has_def)
  have ts: "\<forall>x. db_status (to_model example_services x) = api_status x"
    and ti: "\<forall>x. db_id (to_model example_services x) = None"
    and fk: "\<forall>d. api_status (from_model example_services d) = db_status d \<and>
                 api_id (from_model example_services d) = db_id d"
    by (simp_all add: example_services_def example_to_model_def example_from_model_def)
  from post_creates_scheduled_execution
         [OF example_context act example_local en nm example_runner_found asg mp valid ts ti fk,
          of example_world]
  obtain d2 s2 w' where
    "d2 \<in> set (records s2)"
    "post example_services mem_persistence 99 no_headers ?R example_world =
       (Inr (from_model example_services d2), w')"
    "store w' = s2"
    "api_status (from_model example_services d2) = Some SCHEDULED"
    "\<exists>i. api_id (from_model example_services d2) = Some i \<and> i \<noteq> []"
    by blast
  moreover from this fk have "db_status d2 = Some SCHEDULED" by simp
  ultimately have
    "\<exists>r w'. post example_services mem_persistence 99 no_headers ?R example_world = (Inr r, w') \<and>
           api_status r = Some SCHEDULED \<and> (\<exists>i. api_id r = Some i \<and> i \<noteq> []) \<and>
           (\<exists>d \<in> set (records (store w')). db_status d = Some SCHEDULED)"
    by blast
  with act valid ts ti fk show ?thesis by blast
qed

text \<open>
  Claim C3. A creation request that reaches the action lookup (the context header, if
  any, was parsed) fails with \<^verbatim>\<open>abort(404)\<close> when the action is not found, with
  \<^verbatim>\<open>abort(403)\<close> when it is disabled, and with \<^verbatim>\<open>abort(400, str(e))\<close> when
  \<^verbatim>\<open>jsonschema.validate\<close> raises \<^verbatim>\<open>ValidationError\<close> on the merged parameters; in
  each case the store is unchanged. More generally, whenever \<^verbatim>\<open>post\<close> ends in an
  \<^verbatim>\<open>abort\<close>, the store is unchanged.
\<close>

theorem post_failure_persists_nothing:
  assumes ctx: "retrieve_context svc headers (a\<lparr>api_start_timestamp := Some now\<rparr>) = Inr a2"
    and act: "api_action a = Some act"
  shows
    "(fst (get_action_by_dict svc act) = None \<longrightarrow>
        fst (post svc P now headers a w0) = Inl (Abort NOT_FOUND ''Unable to find action.'') \<and>
        store (snd (post svc P now headers a w0)) = store w0) \<and>
     (\<forall>adb adict. get_action_by_dict svc act = (Some adb, adict) \<and> \<not> enabled adb \<longrightarrow>
        fst (post svc P now headers a w0) = Inl (Abort FORBIDDEN ''Action is disabled.'') \<and>
        store (snd (post svc P now headers a w0)) = store w0) \<and>
     (\<forall>adb adict name rtype supplied a5 merged m.
        get_action_by_dict svc act = (Some adb, adict) \<and> enabled adb \<and>
        map_of (runner_type adb) ''name'' = Some name \<and>
        get_runnertype_by_name svc name = Inr rtype \<and>
        api_parameters a = Some supplied \<and>
        assign_default_parameters (runner_parameters rtype) (a2\<lparr>api_action := Some adict\<rparr>) = Inr a5 \<and>
        api_parameters a5 = Some merged \<and>
        jsonschema_validate svc merged (get_parameter_schema svc adb) = Some (ValidationError m) \<longrightarrow>
        fst (post svc P now headers a w0) = Inl (Abort BAD_REQUEST m) \<and>
        store (snd (post svc P now headers a w0)) = store w0) \<and>
     (\<forall>c m w'. post svc P now headers a w0 = (Inl (Abort c m), w') \<longrightarrow> store w' = store w0)"
proof (intro conjI allI impI)
  from retrieve_context_keeps [OF ctx] act have act2: "api_action a2 = Some act" by simp
  {
    assume "fst (get_action_by_dict svc act) = None"
    then obtain d where "get_action_by_dict svc act = (None, d)"
      by (cases "get_action_by_dict svc act") auto
    then have "post svc P now headers a w0 =
        (Inl (Abort NOT_FOUND ''Unable to find action.''),
         LOG ERROR (''POST /actionexecutions/ Action for '' @ [CHR 0x22] @ ''%s'' @ [CHR 0x22] @
                  '' cannot be found.'')
           (LOG DEBUG ''POST /actionexecutions/ Action=%s''
             (snd (fill_in_parameters a2 (LOG INFO ''POST /actionexecutions/ with actionexec data=%s'' w0)))))"
      using ctx act2
      by (simp add: post_def fill_in_parameters_def Let_def)
    then show "fst (post svc P now headers a w0) = Inl (Abort NOT_FOUND ''Unable to find action.'')"
      and "store (snd (post svc P now headers a w0)) = store w0"
      by (simp_all add: store_LOG fill_in_parameters_def)
  }
  {
    fix adb adict
    assume "get_action_by_dict svc act = (Some adb, adict) \<and> \<not> enabled adb"
    then have "post svc P now headers a w0 =
        (Inl (Abort FORBIDDEN ''Action is disabled.''),
         LOG ERROR ''POST /actionexecutions/ Unable to create Action Execution for a disabled Action. Action is: %s''
           (LOG DEBUG ''POST /actionexecutions/ Action=%s''
             (snd (fill_in_parameters a2 (LOG INFO ''POST /actionexecutions/ with actionexec data=%s'' w0)))))"
      using ctx act2
      by (simp add: post_def fill_in_parameters_def Let_def)
    then show "fst (post svc P now headers a w0) = Inl (Abort FORBIDDEN ''Action is disabled.'')"
      and "store (snd (post svc P now headers a w0)) = store w0"
      by (simp_all add: store_LOG fill_in_parameters_def)
  }
  {
    fix adb adict name rtype supplied a5 merged m
    assume h: "get_action_by_dict svc act = (Some adb, adict) \<and> enabled adb \<and>
        map_of (runner_type adb) ''name'' = Some name \<and>
        get_runnertype_by_name svc name = Inr rtype \<and>
        api_parameters a = Some supplied \<and>
        assign_default_parameters (runner_parameters rtype) (a2\<lparr>api_action := Some adict\<rparr>) = Inr a5 \<and>
        api_parameters a5 = Some merged \<and>
        jsonschema_validate svc merged (get_parameter_schema svc adb) = Some (ValidationError m)"
    from h retrieve_context_keeps [OF ctx] have p2: "api_parameters a2 = Some supplied" by simp
    then have f: "fst (fill_in_parameters a2 w0) = a2" by (simp add: fill_in_parameters_def)
    from h post_reaches_loop [OF ctx act, of adb adict name rtype w0 P] obtain w4 where
      w4: "store w4 = store w0"
      and p: "post svc P now headers a w0 =
                (case validate_parameters svc adb a5 w4 of
                   (Inl f, w5) \<Rightarrow> (Inl f, w5)
                 | (Inr u, w5) \<Rightarrow> create_actionexecution svc P a5 w5)"
      by (auto simp: f)
    from h have "validate_parameters svc adb a5 w4 =
        (Inl (Abort BAD_REQUEST m),
         LOG ERROR ''POST /actionexecutions/ Parameter validation failed. %s''
           (LOG DEBUG ''POST /actionexecutions/ Validation for parameters=%s & schema=%s'' w4))"
      by (simp add: validate_parameters_def Let_def)
    with p w4 show "fst (post svc P now headers a w0) = Inl (Abort BAD_REQUEST m)"
      and "store (snd (post svc P now headers a w0)) = store w0"
      by (simp_all add: store_LOG)
  }
  {
    fix c m w'
    assume "post svc P now headers a w0 = (Inl (Abort c m), w')"
    then show "store w' = store w0" by (rule post_abort_store)
  }
qed

theorem post_failure_persists_nothing_witness:
  "fst (post example_services mem_persistence 99 no_headers
          (example_request ''nope'' (Some [])) example_world) =
     Inl (Abort 404 ''Unable to find action.'') \<and>
   store (snd (post example_services mem_persistence 99 no_headers
                 (example_request ''nope'' (Some [])) example_world)) = store example_world \<and>
   fst (post example_services mem_persistence 99 no_headers
          (example_request ''core.off'' (Some [])) example_world) =
     Inl (Abort 403 ''Action is disabled.'') \<and>
   store (snd (post example_services mem_persistence 99 no_headers
                 (example_request ''core.off'' (Some [])) example_world)) = store example_world \<and>
   fst (post example_services mem_persistence 99 no_headers
          (example_request ''core.local'' (Some [(''bad'', JInt 1)])) example_world) =
     Inl (Abort 400 ''bad is not allowed'') \<and>
   store (snd (post example_services mem_persistence 99 no_headers
                 (example_request ''core.local'' (Some [(''bad'', JInt 1)])) example_world)) =
     store example_world"
proof -
  let ?N = "example_request ''nope'' (Some [])"
  let ?O = "example_request ''core.off'' (Some [])"
  let ?B = "example_request ''core.local'' (Some [(''bad'', JInt 1)])"
  let ?M = "[(''bad'', JInt 1), (''a'', JInt 1), (''b'', JInt 2)]"
  have actN: "api_action ?N = Some (JStr ''nope'')"
    and actO: "api_action ?O = Some (JStr ''core.off'')"
    and actB: "api_action ?B = Some (JStr ''core.local'')"
    by (simp_all add: example_request_def)
  have off: "get_action_by_dict example_services (JStr ''core.off'') =
               (Some \<lparr>enabled = False, runner_type = [(''name'', JStr ''run-local'')]\<rparr>,
                example_action ''core.off'') \<and>
             \<not> enabled \<lparr>enabled = False, runner_type = [(''name'', JStr ''run-local'')]\<rparr>"
    by (simp add: example_off)
  have bad: "get_action_by_dict example_services (JStr ''core.local'') =
               (Some \<lparr>enabled = True, runner_type = [(''name'', JStr ''run-local'')]\<rparr>,
                example_action ''core.local'') \<and>
             enabled \<lparr>enabled = True, runner_type = [(''name'', JStr ''run-local'')]\<rparr> \<and>
             map_of (runner_type \<lparr>enabled = True, runner_type = [(''name'', JStr ''run-local'')]\<rparr>)
               ''name'' = Some (JStr ''run-local'') \<and>
             get_runnertype_by_name example_services (JStr ''run-local'') = Inr example_runner \<and>
             api_parameters ?B = Some [(''bad'', JInt 1)] \<and>
             assign_default_parameters (runner_parameters example_runner)
               (?B\<lparr>api_start_timestamp := Some 99, api_action := Some (example_action ''core.local'')\<rparr>) =
               Inr (?B\<lparr>api_start_timestamp := Some 99,
                      api_action := Some (example_action ''core.local''),
                      api_parameters := Some ?M\<rparr>) \<and>
             api_parameters (?B\<lparr>api_start_timestamp := Some 99,
                      api_action := Some (example_action ''core.local''),
                      api_parameters := Some ?M\<rparr>) = Some ?M \<and>
             jsonschema_validate example_services ?M
               (get_parameter_schema example_services
                  \<lparr>enabled = True, runner_type = [(''name'', JStr ''run-local'')]\<rparr>) =
               Some (ValidationError ''bad is not allowed'')"
    by (simp add: example_local example_runner_found example_request_def example_runner_def
          dict_has_def dict_set_def example_services_def)
  from post_failure_persists_nothing
         [where now = 99 and P = mem_persistence and ?w0.0 = example_world,
          OF example_context actN]
       example_nope
  have n: "fst (post example_services mem_persistence 99 no_headers ?N example_world) =
             Inl (Abort NOT_FOUND ''Unable to find action.'') \<and>
           store (snd (post example_services mem_persistence 99 no_headers ?N example_world)) =
             store example_world"
    by blast
  from post_failure_persists_nothing
         [where now = 99 and P = mem_persistence and ?w0.0 = example_world,
          OF example_context actO]
       off
  have o: "fst (post example_services mem_persistence 99 no_headers ?O example_world) =
             Inl (Abort FORBIDDEN ''Action is disabled.'') \<and>
           store (snd (post example_services mem_persistence 99 no_headers ?O example_world)) =
             store example_world"
    by blast
  from post_failure_persists_nothing
         [where now = 99 and P = mem_persistence and ?w0.0 = example_world,
          OF example_context actB]
       bad
  have b: "fst (post example_services mem_persistence 99 no_headers ?B example_world) =
             Inl (Abort BAD_REQUEST ''bad is not allowed'') \<and>
           store (snd (post example_services mem_persistence 99 no_headers ?B example_world)) =
             store example_world"
    by blast
  from n o b show ?thesis
    by (simp add: NOT_FOUND_def FORBIDDEN_def BAD_REQUEST_def)
qed

text \<open>
  Claim C7. For a request without \<^verbatim>\<open>parameters\<close>, the fill-in step logs the warning
  and sets \<^verbatim>\<open>runner_parameters\<close> to the empty dictionary, while \<^verbatim>\<open>parameters\<close> stays
  missing; \<^verbatim>\<open>post\<close> on such a request (once the context header is dealt with) has
  the warning in its log and does not return an entry.
\<close>

theorem post_without_parameters_sets_runner_parameters:
  assumes "api_parameters a = None"
  shows "fill_in_parameters a w =
           (a\<lparr>api_runner_parameters := Some []\<rparr>,
            LOG WARNING ''POST /actionexecutions/ request did not provide parameters field.'' w) \<and>
         api_runner_parameters (fst (fill_in_parameters a w)) = Some [] \<and>
         api_parameters (fst (fill_in_parameters a w)) = None \<and>
         (\<forall>a2. retrieve_context svc headers (a\<lparr>api_start_timestamp := Some now\<rparr>) = Inr a2 \<longrightarrow>
            (WARNING, ''POST /actionexecutions/ request did not provide parameters field.'')
              \<in> set (log (snd (post svc P now headers a w0))) \<and>
            (\<exists>f. fst (post svc P now headers a w0) = Inl f))"
proof (intro conjI allI impI)
  show "fill_in_parameters a w =
           (a\<lparr>api_runner_parameters := Some []\<rparr>,
            LOG WARNING ''POST /actionexecutions/ request did not provide parameters field.'' w)"
    using assms by (simp add: fill_in_parameters_def)
  then show "api_runner_parameters (fst (fill_in_parameters a w)) = Some []"
    and "api_parameters (fst (fill_in_parameters a w)) = None"
    using assms by simp_all
next
  fix a2
  assume ctx: "retrieve_context svc headers (a\<lparr>api_start_timestamp := Some now\<rparr>) = Inr a2"
  from retrieve_context_keeps [OF ctx] assms have p2: "api_parameters a2 = None" by simp
  have m: "\<And>rp x. api_parameters x = None \<Longrightarrow>
     assign_default_parameters rp x = (if rp = [] then Inr x else Inl (AttributeError ''parameters''))"
    by (rule assign_default_parameters_missing)
  show "(WARNING, ''POST /actionexecutions/ request did not provide parameters field.'')
              \<in> set (log (snd (post svc P now headers a w0)))"
    using ctx p2
    by (auto simp: post_def fill_in_parameters_def Let_def log_LOG m validate_parameters_missing
             split: option.splits prod.splits sum.splits)
  show "\<exists>f. fst (post svc P now headers a w0) = Inl f"
    using ctx p2
    by (auto simp: post_def fill_in_parameters_def Let_def m validate_parameters_missing
             split: option.splits prod.splits sum.splits)
qed

theorem post_without_parameters_sets_runner_parameters_witness:
  "api_parameters (example_request ''core.local'' None) = None \<and>
   api_runner_parameters (fst (fill_in_parameters (example_request ''core.local'' None) example_world))
     = Some [] \<and>
   api_parameters (fst (fill_in_parameters (example_request ''core.local'' None) example_world))
     = None \<and>
   (WARNING, ''POST /actionexecutions/ request did not provide parameters field.'')
      \<in> set (log (snd (post example_services mem_persistence 99 no_headers
                          (example_request ''core.local'' None) example_world)))"
proof -
  have np: "api_parameters (example_request ''core.local'' None) = None"
    by (simp add: example_request_def)
  from post_without_parameters_sets_runner_parameters
         [OF np, of example_world example_services no_headers 99 mem_persistence example_world]
       example_context np
  show ?thesis by blast
qed

text \<open>
  Claim C8. A creation request without \<^verbatim>\<open>parameters\<close> whose action resolves and is
  enabled and whose runner type declares at least one runner parameter ends in an
  uncaught exception, never in an \<^verbatim>\<open>abort\<close> and never in a created entry, and the
  store is unchanged; when the context header was dealt with, the exception is the
  \<^verbatim>\<open>AttributeError\<close> of the loop's read of \<^verbatim>\<open>parameters\<close>.
\<close>

theorem post_without_parameters_raises:
  assumes np: "api_parameters a = None"
    and act: "api_action a = Some act"
    and res: "get_action_by_dict svc act = (Some adb, adict)"
    and en: "enabled adb"
    and nm: "map_of (runner_type adb) ''name'' = Some name"
    and rt: "get_runnertype_by_name svc name = Inr rtype"
    and rp: "runner_parameters rtype \<noteq> []"
  shows "\<exists>e w'. post svc P now headers a w0 = (Inl (Raised e), w') \<and> store w' = store w0 \<and>
           (\<forall>a2. retrieve_context svc headers (a\<lparr>api_start_timestamp := Some now\<rparr>) = Inr a2 \<longrightarrow>
                 e = AttributeError ''parameters'')"
proof (cases "retrieve_context svc headers (a\<lparr>api_start_timestamp := Some now\<rparr>)")
  case (Inl e)
  then have "post svc P now headers a w0 =
               (Inl (Raised e), LOG INFO ''POST /actionexecutions/ with actionexec data=%s'' w0)"
    by (simp add: post_def Let_def)
  with Inl show ?thesis by (simp add: store_LOG)
next
  case (Inr a2)
  from retrieve_context_keeps [OF Inr] np have p2: "api_parameters a2 = None" by simp
  then have "api_parameters ((fst (fill_in_parameters a2 w0))\<lparr>api_action := Some adict\<rparr>) = None"
    by (simp add: fill_in_parameters_def)
  from assign_default_parameters_missing [OF this, of "runner_parameters rtype"] rp
  have "assign_default_parameters (runner_parameters rtype)
          ((fst (fill_in_parameters a2 w0))\<lparr>api_action := Some adict\<rparr>) =
        Inl (AttributeError ''parameters'')"
    by simp
  with post_reaches_loop [OF Inr act res en nm rt, of w0 P] obtain w4 where
    "store w4 = store w0"
    "post svc P now headers a w0 = (Inl (Raised (AttributeError ''parameters'')), w4)"
    by auto
  with Inr show ?thesis by simp
qed

theorem post_without_parameters_raises_witness:
  "api_parameters (example_request ''core.local'' None) = None \<and>
   runner_parameters example_runner \<noteq> [] \<and>
   fst (post example_services mem_persistence 99 no_headers
          (example_request ''core.local'' None) example_world) =
     Inl (Raised (AttributeError ''parameters'')) \<and>
   store (snd (post example_services mem_persistence 99 no_headers
                 (example_request ''core.local'' None) example_world)) = store example_world"
proof -
  let ?R = "example_request ''core.local'' None"
  have np: "api_parameters ?R = None"
    and act: "api_action ?R = Some (JStr ''core.local'')"
    by (simp_all add: example_request_def)
  have en: "enabled \<lparr>enabled = True, runner_type = [(''name'', JStr ''run-local'')]\<rparr>"
    and nm: "map_of (runner_type \<lparr>enabled = True, runner_type = [(''name'', JStr ''run-local'')]\<rparr>)
               ''name'' = Some (JStr ''run-local'')"
    by simp_all
  have rp: "runner_parameters example_runner \<noteq> []"
    by (simp add: example_runner_def)
  from post_without_parameters_raises
         [OF np act example_local en nm example_runner_found rp,
          of mem_persistence 99 no_headers example_world]
       example_context np rp
  show ?thesis by auto
qed

end
